theory Spec2Isabelle
  imports Main "HOL-Library.Sublist" "HOL-Library.AList"
begin

section \<open>JavaScript strings and numbers\<close>

text \<open>
  A JavaScript string is modelled by the bytes of its UTF-8 encoding (\<open>string\<close>).
  The ASCII digits, the comma, the ASCII letters of the markers searched for by
  \<open>includes\<close> and \<open>startsWith\<close> are single bytes that never occur inside the
  encoding of another character, so filtering digits, prefix tests and substring tests on
  the bytes agree with the same operations on the JavaScript string.  The messages of the
  program contain Portuguese letters; they are written with their two UTF-8 bytes.
\<close>

definition is_digit :: "char \<Rightarrow> bool" where
  \<comment> \<open>the regular expression class \<open>\d\<close>: exactly the ASCII digits\<close>
  "is_digit c = (c \<in> set ''0123456789'')"

definition strip_non_digits :: "string \<Rightarrow> string" where
  \<comment> \<open>\<^verbatim>\<open>s.replace(/\D/g, '')\<close>\<close>
  "strip_non_digits s = filter is_digit s"

definition digit_value :: "char \<Rightarrow> int" where
  \<comment> \<open>\<^verbatim>\<open>parseInt(c)\<close> and the coercion \<^verbatim>\<open>c * n\<close> of a one-character string
      that matches \<open>\d\<close>; it is applied to characters of a cleaned string only\<close>
  "digit_value c = int (of_char c) - 48"

definition js_rem :: "int \<Rightarrow> int \<Rightarrow> int" where
  \<comment> \<open>the operator \<^verbatim>\<open>%\<close> on integers: the remainder has the sign of the dividend\<close>
  "js_rem a b = sgn a * (\<bar>a\<bar> mod \<bar>b\<bar>)"

definition repeated_digit :: "string \<Rightarrow> bool" where
  \<comment> \<open>\<^verbatim>\<open>/^(\d)\1+$/.test(s)\<close>: a digit followed by one or more copies of itself\<close>
  "repeated_digit s =
     (case s of [] \<Rightarrow> False
      | c # cs \<Rightarrow> is_digit c \<and> cs \<noteq> [] \<and> list_all (\<lambda>x. x = c) cs)"

definition msg_14_digitos :: string where
  \<comment> \<open>\<^verbatim>\<open>'CNPJ deve conter 14 d\<close>\<open>\<iacute>\<close>\<^verbatim>\<open>gitos'\<close>\<close>
  "msg_14_digitos = ''CNPJ deve conter 14 d'' @ [CHR 0xC3, CHR 0xAD] @ ''gitos''"

definition msg_cnpj_invalido :: string where
  \<comment> \<open>\<^verbatim>\<open>'CNPJ inv\<close>\<open>\<aacute>\<close>\<^verbatim>\<open>lido'\<close>\<close>
  "msg_cnpj_invalido = ''CNPJ inv'' @ [CHR 0xC3, CHR 0xA1] @ ''lido''"

text \<open>
  The result object of \<open>validate\<close>: \<^verbatim>\<open>{ isValid: false, error }\<close> or
  \<^verbatim>\<open>{ isValid: true, cleaned }\<close>.
\<close>

datatype validation = Invalid (validation_error: string) | Valid (validation_cleaned: string)

fun isValid :: "validation \<Rightarrow> bool" where
  "isValid (Valid c) = True"
| "isValid (Invalid e) = False"


section \<open>CNPJValidatorServer.validate of src/api/cnpj.js\<close>

text \<open>
  \<^verbatim>\<open>for (let i = tamanho; i >= 1; i--) {
     soma += numeros.charAt(tamanho - i) * pos--;
     if (pos < 2) pos = 9;
   }\<close>
  \<open>charAt\<close> beyond the end gives the empty string, which multiplies as 0.
\<close>

definition charAt_value :: "string \<Rightarrow> nat \<Rightarrow> int" where
  "charAt_value s k = (if k < length s then digit_value (s ! k) else 0)"

function api_soma_loop :: "string \<Rightarrow> nat \<Rightarrow> nat \<Rightarrow> int \<Rightarrow> int \<Rightarrow> int" where
  "api_soma_loop numeros tamanho i soma pos =
     (if 1 \<le> i
      then api_soma_loop numeros tamanho (i - 1)
             (soma + charAt_value numeros (tamanho - i) * pos)
             (if pos - 1 < 2 then 9 else pos - 1)
      else soma)"
  by pat_completeness auto
termination
  by (relation "measure (\<lambda>(numeros, tamanho, i, soma, pos). i)") auto

declare api_soma_loop.simps [simp del]

definition api_resultado :: "int \<Rightarrow> int" where
  \<comment> \<open>\<^verbatim>\<open>soma % 11 < 2 ? 0 : 11 - (soma % 11)\<close>\<close>
  "api_resultado soma = (if js_rem soma 11 < 2 then 0 else 11 - js_rem soma 11)"

definition api_validate :: "string \<Rightarrow> validation" where
  "api_validate cnpj =
     (let cleaned = strip_non_digits cnpj in
      if length cleaned \<noteq> 14 then Invalid msg_14_digitos
      else if repeated_digit cleaned then Invalid msg_cnpj_invalido
      else
        let tamanho = length cleaned - 2;
            numeros = take tamanho cleaned;
            digitos = drop tamanho cleaned;
            soma = api_soma_loop numeros tamanho tamanho 0 (int tamanho - 7)
        in if api_resultado soma \<noteq> charAt_value digitos 0 then Invalid msg_cnpj_invalido
           else
             let tamanho2 = tamanho + 1;
                 numeros2 = take tamanho2 cleaned;
                 soma2 = api_soma_loop numeros2 tamanho2 tamanho2 0 (int tamanho2 - 7)
             in if api_resultado soma2 \<noteq> charAt_value digitos 1 then Invalid msg_cnpj_invalido
                else Valid cleaned)"


section \<open>The validators of src/public/script.js and of the optimised server\<close>

text \<open>
  \<open>CNPJValidator.validate\<close> (src/public/script.js) and the second
  \<open>CNPJValidatorServer.validate\<close> (src/unnamed/part\_000) have the same body:
  \<^verbatim>\<open>for (let i = 0; i < 12; i++) {
     sum += parseInt(cleaned[i]) * weight;
     weight = weight === 2 ? 9 : weight - 1;
   }
   let digit = 11 - (sum % 11);
   if (digit > 9) digit = 0;\<close>
  The loop runs after the length test, so every index it reads is inside \<open>cleaned\<close>.
\<close>

function sum_loop :: "string \<Rightarrow> nat \<Rightarrow> nat \<Rightarrow> int \<Rightarrow> int \<Rightarrow> int" where
  "sum_loop cleaned n i sum_acc weight =
     (if i < n
      then sum_loop cleaned n (i + 1)
             (sum_acc + digit_value (cleaned ! i) * weight)
             (if weight = 2 then 9 else weight - 1)
      else sum_acc)"
  by pat_completeness auto
termination
  by (relation "measure (\<lambda>(cleaned, n, i, sum_acc, weight). n - i)") auto

declare sum_loop.simps [simp del]

definition check_digit :: "int \<Rightarrow> int" where
  "check_digit sum_acc = (let digit = 11 - js_rem sum_acc 11 in if digit > 9 then 0 else digit)"

definition clean :: "string \<Rightarrow> string" where
  \<comment> \<open>\<open>CNPJValidator.clean\<close>\<close>
  "clean cnpj = strip_non_digits cnpj"

definition script_validate :: "string \<Rightarrow> validation" where
  "script_validate cnpj =
     (let cleaned = clean cnpj in
      if length cleaned \<noteq> 14 then Invalid msg_14_digitos
      else if repeated_digit cleaned then Invalid msg_cnpj_invalido
      else if check_digit (sum_loop cleaned 12 0 0 5) \<noteq> digit_value (cleaned ! 12)
        then Invalid msg_cnpj_invalido
      else if check_digit (sum_loop cleaned 13 0 0 6) \<noteq> digit_value (cleaned ! 13)
        then Invalid msg_cnpj_invalido
      else Valid cleaned)"

definition opt_validate :: "string \<Rightarrow> validation" where
  \<comment> \<open>\<open>CNPJValidatorServer.validate\<close> of src/unnamed/part\_000\<close>
  "opt_validate cnpj =
     (let cleaned = strip_non_digits cnpj in
      if length cleaned \<noteq> 14 then Invalid msg_14_digitos
      else if repeated_digit cleaned then Invalid msg_cnpj_invalido
      else if check_digit (sum_loop cleaned 12 0 0 5) \<noteq> digit_value (cleaned ! 12)
        then Invalid msg_cnpj_invalido
      else if check_digit (sum_loop cleaned 13 0 0 6) \<noteq> digit_value (cleaned ! 13)
        then Invalid msg_cnpj_invalido
      else Valid cleaned)"


section \<open>The validator as the specification words it\<close>

text \<open>
  Section 4.1 of the specification: weights 5,4,3,2,9,8,7,6,5,4,3,2 over the first 12
  digits, weights starting at 6 over the first 13 digits, the digit is
  \<open>11 - (sum mod 11)\<close>, clamped to 0 when it exceeds 9.
\<close>

definition spec_weights1 :: "int list" where
  "spec_weights1 = [5, 4, 3, 2, 9, 8, 7, 6, 5, 4, 3, 2]"

definition spec_weights2 :: "int list" where
  "spec_weights2 = [6, 5, 4, 3, 2, 9, 8, 7, 6, 5, 4, 3, 2]"

definition spec_check_digit :: "int list \<Rightarrow> string \<Rightarrow> int" where
  "spec_check_digit ws ds =
     (let d = 11 - (sum_list (map2 (\<lambda>c w. digit_value c * w) ds ws) mod 11)
      in if d > 9 then 0 else d)"

definition all_identical :: "string \<Rightarrow> bool" where
  "all_identical c = list_all (\<lambda>x. x = hd c) c"


datatype spec_reason = WrongLength | RepeatedDigit | BadCheckDigit

definition spec_validate :: "string \<Rightarrow> spec_reason + string" where
  "spec_validate raw =
     (let c = strip_non_digits raw in
      if length c \<noteq> 14 then Inl WrongLength
      else if all_identical c then Inl RepeatedDigit
      else if spec_check_digit spec_weights1 (take 12 c) \<noteq> digit_value (c ! 12)
        then Inl BadCheckDigit
      else if spec_check_digit spec_weights2 (take 13 c) \<noteq> digit_value (c ! 13)
        then Inl BadCheckDigit
      else Inr c)"

text \<open>
  The messages that src/test/cnpj-validator.test.js expects for an identifier of repeated
  digits (\<^verbatim>\<open>'CNPJ com d\<close>\<open>\<iacute>\<close>\<^verbatim>\<open>gitos repetidos \<close>\<open>\<eacute>\<close>\<^verbatim>\<open> inv\<close>\<open>\<aacute>\<close>\<^verbatim>\<open>lido'\<close>)
  and for a wrong check digit (\<^verbatim>\<open>'D\<close>\<open>\<iacute>\<close>\<^verbatim>\<open>gito verificador inv\<close>\<open>\<aacute>\<close>\<^verbatim>\<open>lido'\<close>).
\<close>

definition test_msg_repetidos :: string where
  "test_msg_repetidos =
     ''CNPJ com d'' @ [CHR 0xC3, CHR 0xAD] @ ''gitos repetidos '' @ [CHR 0xC3, CHR 0xA9] @
     '' inv'' @ [CHR 0xC3, CHR 0xA1] @ ''lido''"

definition test_msg_digito :: string where
  "test_msg_digito =
     ''D'' @ [CHR 0xC3, CHR 0xAD] @ ''gito verificador inv'' @ [CHR 0xC3, CHR 0xA1] @ ''lido''"


section \<open>Numbers as strings, and the Map of the JavaScript runtime\<close>

text \<open>
  \<^verbatim>\<open>`${now}`\<close>, \<^verbatim>\<open>`${response.status}`\<close> and \<^verbatim>\<open>timestamp.toString()\<close> turn an
  integer into its decimal digits.  (From \<open>10\<^sup>2\<^sup>1\<close> on JavaScript switches to the
  exponent notation; timestamps in milliseconds and HTTP status codes are far below.)
\<close>

definition digit_char :: "int \<Rightarrow> char" where
  "digit_char d = char_of (48 + d)"

function int_digits :: "int \<Rightarrow> string" where
  "int_digits n =
     (if n < 10 then [digit_char n] else int_digits (n div 10) @ [digit_char (n mod 10)])"
  by pat_completeness auto
termination
  by (relation "measure (\<lambda>n. nat n)") auto

declare int_digits.simps [simp del]

definition Number_toString :: "int \<Rightarrow> string" where
  "Number_toString i = (if i < 0 then CHR ''-'' # int_digits (- i) else int_digits i)"

text \<open>
  A \<open>Map\<close> keeps its entries in insertion order and iterates in that order:
  an association list with distinct keys.  \<open>set\<close> on a present key replaces the value
  where it stands, \<open>set\<close> on a new key appends, \<open>keys().next().value\<close> is the key of
  the first entry (\<open>undefined\<close> on an empty map), \<open>size\<close> is the length.
\<close>

type_synonym ('k, 'v) js_map = "('k \<times> 'v) list"

definition Map_get :: "('k, 'v) js_map \<Rightarrow> 'k \<Rightarrow> 'v option" where
  "Map_get m k = map_of m k"

definition Map_has :: "('k, 'v) js_map \<Rightarrow> 'k \<Rightarrow> bool" where
  "Map_has m k = (map_of m k \<noteq> None)"

definition Map_set :: "'k \<Rightarrow> 'v \<Rightarrow> ('k, 'v) js_map \<Rightarrow> ('k, 'v) js_map" where
  "Map_set k v m = AList.update k v m"

definition Map_delete :: "'k \<Rightarrow> ('k, 'v) js_map \<Rightarrow> ('k, 'v) js_map" where
  "Map_delete k m = AList.delete k m"

definition Map_first_key :: "('k, 'v) js_map \<Rightarrow> 'k option" where
  "Map_first_key m = (case m of [] \<Rightarrow> None | (k, v) # rest \<Rightarrow> Some k)"

definition Map_delete_first :: "('k, 'v) js_map \<Rightarrow> ('k, 'v) js_map" where
  \<comment> \<open>\<^verbatim>\<open>const firstKey = m.keys().next().value; m.delete(firstKey);\<close>
      (deleting \<open>undefined\<close> from an empty map changes nothing)\<close>
  "Map_delete_first m = (case Map_first_key m of None \<Rightarrow> m | Some firstKey \<Rightarrow> Map_delete firstKey m)"


section \<open>The cache and the rate limiter of src/api/cnpj.js\<close>

text \<open>\<open>SECURITY_CONFIG\<close> of src/api/cnpj.js.\<close>

definition api_MAX_REQUESTS_PER_MINUTE :: nat where
  "api_MAX_REQUESTS_PER_MINUTE = 10"

definition api_MAX_REQUESTS_PER_CNPJ_PER_MINUTE :: nat where
  "api_MAX_REQUESTS_PER_CNPJ_PER_MINUTE = 3"

definition api_CACHE_TTL :: int where
  "api_CACHE_TTL = 5 * 60 * 1000"

definition api_MAX_CACHE_SIZE :: nat where
  "api_MAX_CACHE_SIZE = 1000"

text \<open>A cache entry \<^verbatim>\<open>{ data, timestamp }\<close>; times are milliseconds (\<open>Date.now()\<close>).\<close>

record 'd cache_entry =
  data :: 'd
  timestamp :: int

text \<open>
  The global tables \<open>requestCache\<close> and \<open>rateLimitMap\<close> are passed in and returned;
  the reading of the clock \<open>Date.now()\<close> is the argument \<open>now\<close>.
  \<open>CacheManager.get\<close> returns \<open>entry.data\<close> or \<open>null\<close> (here \<open>None\<close>).
\<close>

definition CacheManager_get ::
  "int \<Rightarrow> string \<Rightarrow> (string, 'd cache_entry) js_map \<Rightarrow> 'd option \<times> (string, 'd cache_entry) js_map" where
  "CacheManager_get now cnpj requestCache =
     (case Map_get requestCache cnpj of
        Some entry \<Rightarrow>
          if now - timestamp entry < api_CACHE_TTL then (Some (data entry), requestCache)
          else (None, Map_delete cnpj requestCache)
      | None \<Rightarrow> (None, requestCache))"

definition CacheManager_set ::
  "int \<Rightarrow> string \<Rightarrow> 'd \<Rightarrow> (string, 'd cache_entry) js_map \<Rightarrow> (string, 'd cache_entry) js_map" where
  "CacheManager_set now cnpj d requestCache =
     Map_set cnpj \<lparr>data = d, timestamp = now\<rparr>
       (if api_MAX_CACHE_SIZE \<le> length requestCache then Map_delete_first requestCache
        else requestCache)"

definition CacheManager_getSize :: "(string, 'd cache_entry) js_map \<Rightarrow> nat" where
  "CacheManager_getSize requestCache = length requestCache"

text \<open>
  \<open>SecurityMiddleware.checkRateLimit(ip, cnpj)\<close>.  The loop that deletes the entries
  older than the window keeps exactly the entries that fail its test.
\<close>

definition api_checkRateLimit ::
  "int \<Rightarrow> string \<Rightarrow> string \<Rightarrow> (string, int) js_map \<Rightarrow> bool \<times> (string, int) js_map" where
  "api_checkRateLimit now ip cnpj rateLimitMap =
     (let windowStart = now - 60000;
          m = filter (\<lambda>(key, timestamp). \<not> timestamp < windowStart) rateLimitMap;
          ipRequests = length (filter (\<lambda>(key, timestamp).
                         prefix (''ip-'' @ ip) key \<and> timestamp > windowStart) m)
      in if api_MAX_REQUESTS_PER_MINUTE \<le> ipRequests then (False, m)
         else
           let cnpjRequests = length (filter (\<lambda>(key, timestamp).
                                prefix (''cnpj-'' @ cnpj) key \<and> timestamp > windowStart) m)
           in if api_MAX_REQUESTS_PER_CNPJ_PER_MINUTE \<le> cnpjRequests then (False, m)
              else (True,
                    Map_set (''cnpj-'' @ cnpj @ ''-'' @ Number_toString now) now
                      (Map_set (''ip-'' @ ip @ ''-'' @ Number_toString now) now m)))"

text \<open>Consecutive admission checks: the answers, and the table after the last one.\<close>

fun api_checks ::
  "(int \<times> string \<times> string) list \<Rightarrow> (string, int) js_map \<Rightarrow> bool list \<times> (string, int) js_map" where
  "api_checks [] m = ([], m)"
| "api_checks ((now, ip, cnpj) # rest) m =
     (case api_checkRateLimit now ip cnpj m of
        (ok, m') \<Rightarrow> (case api_checks rest m' of (oks, m'') \<Rightarrow> (ok # oks, m'')))"


section \<open>The cache and the rate limiter of src/unnamed/part\_000\<close>

text \<open>\<open>SECURITY_CONFIG\<close> of src/unnamed/part\_000.\<close>

definition opt_MAX_REQUESTS_PER_MINUTE :: nat where
  "opt_MAX_REQUESTS_PER_MINUTE = 10"

definition opt_CACHE_TTL :: int where
  "opt_CACHE_TTL = 5 * 60 * 1000"

definition opt_MAX_CACHE_SIZE :: nat where
  "opt_MAX_CACHE_SIZE = 100"

record 'd LRUCache =
  maxSize :: nat
  cache :: "(string, 'd cache_entry) js_map"

definition LRUCache_new :: "nat \<Rightarrow> 'd LRUCache" where
  "LRUCache_new n = \<lparr>maxSize = n, cache = []\<rparr>"

text \<open>
  \<open>get\<close> returns the stored entry object (\<open>data\<close> and \<open>timestamp\<close>) or \<open>null\<close>,
  and moves the entry to the end of the map.
\<close>

definition LRUCache_get :: "string \<Rightarrow> 'd LRUCache \<Rightarrow> 'd cache_entry option \<times> 'd LRUCache" where
  "LRUCache_get key c =
     (if \<not> Map_has (cache c) key then (None, c)
      else
        (case Map_get (cache c) key of
           None \<Rightarrow> (None, c)
         | Some v \<Rightarrow> (Some v, c\<lparr>cache := Map_set key v (Map_delete key (cache c))\<rparr>)))"

definition LRUCache_set :: "int \<Rightarrow> string \<Rightarrow> 'd \<Rightarrow> 'd LRUCache \<Rightarrow> 'd LRUCache" where
  "LRUCache_set now key v c =
     c\<lparr>cache := Map_set key \<lparr>data = v, timestamp = now\<rparr>
         (if Map_has (cache c) key then Map_delete key (cache c)
          else if maxSize c \<le> length (cache c) then Map_delete_first (cache c)
          else cache c)\<rparr>"

definition LRUCache_cleanup :: "int \<Rightarrow> 'd LRUCache \<Rightarrow> 'd LRUCache" where
  "LRUCache_cleanup now c =
     c\<lparr>cache := filter (\<lambda>(key, entry). \<not> now - timestamp entry > opt_CACHE_TTL) (cache c)\<rparr>"

text \<open>
  \<open>SecurityMiddleware.checkRateLimit(ip)\<close> of src/unnamed/part\_000:
  \<^verbatim>\<open>Array.from(rateLimitMap.values())
     .filter(timestamp => timestamp > windowStart && timestamp.toString().startsWith(ip))\<close>
\<close>

definition opt_checkRateLimit ::
  "int \<Rightarrow> string \<Rightarrow> (string, int) js_map \<Rightarrow> bool \<times> (string, int) js_map" where
  "opt_checkRateLimit now ip rateLimitMap =
     (let windowStart = now - 60000;
          m = (if length rateLimitMap > 1000
               then filter (\<lambda>(key, timestamp). \<not> timestamp < windowStart) rateLimitMap
               else rateLimitMap);
          requestCount = length (filter (\<lambda>timestamp.
                           timestamp > windowStart \<and> prefix ip (Number_toString timestamp))
                           (map snd m))
      in if opt_MAX_REQUESTS_PER_MINUTE \<le> requestCount then (False, m)
         else (True, Map_set (ip @ ''-'' @ Number_toString now) now m))"

fun opt_checks ::
  "(int \<times> string) list \<Rightarrow> (string, int) js_map \<Rightarrow> bool list \<times> (string, int) js_map" where
  "opt_checks [] m = ([], m)"
| "opt_checks ((now, ip) # rest) m =
     (case opt_checkRateLimit now ip m of
        (ok, m') \<Rightarrow> (case opt_checks rest m' of (oks, m'') \<Rightarrow> (ok # oks, m'')))"


text \<open>
  A \<open>requestCache\<close> of src/api/cnpj.js at its capacity: 1000 entries with the keys
  12345678000000, ..., 12345678000999, in this order of insertion.
\<close>

definition full_cache :: "(string, string cache_entry) js_map" where
  "full_cache =
     map (\<lambda>i. (Number_toString (12345678000000 + int i), \<lparr>data = ''x'', timestamp = 0\<rparr>))
       [0..<1000]"


section \<open>JavaScript values, errors and string functions\<close>

text \<open>
  The values that \<open>JSON.parse\<close> produces, and \<open>undefined\<close>.  A number is
  represented by its rendering \<open>String(x)\<close> (for instance \<open>''1234.56''\<close>,
  \<open>''0''\<close>, \<open>''NaN''\<close>); the program never computes with the numbers of a payload,
  it tests their truthiness and prints them.  An object is the list of its own properties.
\<close>

datatype json =
    JUndefined
  | JNull
  | JBool bool
  | JNum string
  | JStr string
  | JArr "json list"
  | JObj "(string \<times> json) list"

text \<open>An \<open>Error\<close> object: its \<open>name\<close> and its \<open>message\<close>.\<close>

datatype js_error = JsError (err_name: string) (err_message: string)

fun truthy :: "json \<Rightarrow> bool" where
  "truthy JUndefined = False"
| "truthy JNull = False"
| "truthy (JBool b) = b"
| "truthy (JNum t) = (t \<noteq> ''0'' \<and> t \<noteq> ''NaN'')"
| "truthy (JStr s) = (s \<noteq> [])"
| "truthy (JArr xs) = True"
| "truthy (JObj kvs) = True"

definition js_or :: "json \<Rightarrow> json \<Rightarrow> json" where
  \<comment> \<open>\<^verbatim>\<open>a || b\<close>\<close>
  "js_or a b = (if truthy a then a else b)"

definition type_error_read :: "string \<Rightarrow> string \<Rightarrow> js_error" where
  \<comment> \<open>the \<open>TypeError\<close> of Node.js for a property read on \<open>null\<close> or \<open>undefined\<close>\<close>
  "type_error_read what f =
     JsError ''TypeError''
       (''Cannot read properties of '' @ what @ '' (reading '' @ [CHR 0x27] @ f @ [CHR 0x27] @ '')'')"

text \<open>
  The property read \<open>x.f\<close>.  It throws on \<open>null\<close> and \<open>undefined\<close>.  The names read by
  the program (\<open>estabelecimento\<close>, \<open>nome\<close>, \<open>id\<close>, ...) are not properties of strings,
  numbers, booleans or arrays, so the read gives \<open>undefined\<close> on those.
\<close>

fun js_prop :: "json \<Rightarrow> string \<Rightarrow> js_error + json" where
  "js_prop JUndefined f = Inl (type_error_read ''undefined'' f)"
| "js_prop JNull f = Inl (type_error_read ''null'' f)"
| "js_prop (JObj kvs) f = Inr (case map_of kvs f of None \<Rightarrow> JUndefined | Some v \<Rightarrow> v)"
| "js_prop v f = Inr JUndefined"

definition field :: "json \<Rightarrow> string \<Rightarrow> json" where
  \<comment> \<open>\<open>x?.f\<close>; also \<open>x.f\<close> where \<open>x\<close> cannot be \<open>null\<close> or \<open>undefined\<close>: a value
      found truthy, a value read from before, the result of \<^verbatim>\<open>|| {}\<close>, an object literal\<close>
  "field x f = (case js_prop x f of Inl e \<Rightarrow> JUndefined | Inr v \<Rightarrow> v)"

text \<open>\<open>Array.prototype.map\<close> with a callback that may throw: the first exception ends it.\<close>

fun mapE :: "('a \<Rightarrow> js_error + 'b) \<Rightarrow> 'a list \<Rightarrow> js_error + 'b list" where
  "mapE f [] = Inr []"
| "mapE f (x # xs) =
     (case f x of
        Inl e \<Rightarrow> Inl e
      | Inr y \<Rightarrow> (case mapE f xs of Inl e \<Rightarrow> Inl e | Inr ys \<Rightarrow> Inr (y # ys)))"

definition js_includes :: "string \<Rightarrow> string \<Rightarrow> bool" where
  \<comment> \<open>\<open>s.includes(t)\<close>\<close>
  "js_includes s t = sublist t s"

definition replace_all_dots :: "string \<Rightarrow> string" where
  \<comment> \<open>\<^verbatim>\<open>s.replace(/\./g, '')\<close>\<close>
  "replace_all_dots s = filter (\<lambda>c. c \<noteq> CHR ''.'') s"

fun replace_first :: "string \<Rightarrow> string \<Rightarrow> string \<Rightarrow> string" where
  \<comment> \<open>\<open>s.replace(pat, rep)\<close> for a non-empty string \<open>pat\<close>: the first occurrence only\<close>
  "replace_first pat rep [] = []"
| "replace_first pat rep (c # cs) =
     (if prefix pat (c # cs) then rep @ drop (length pat) (c # cs)
      else c # replace_first pat rep cs)"

text \<open>
  \<open>trim\<close> removes the white space and the line terminators of ECMAScript at both ends;
  they are listed here by their UTF-8 bytes.
\<close>

definition js_whitespace :: "string list" where
  "js_whitespace =
     [[CHR 0x09], [CHR 0x0A], [CHR 0x0B], [CHR 0x0C], [CHR 0x0D], [CHR 0x20],
      [CHR 0xC2, CHR 0xA0], [CHR 0xE1, CHR 0x9A, CHR 0x80],
      [CHR 0xE2, CHR 0x80, CHR 0x80], [CHR 0xE2, CHR 0x80, CHR 0x81],
      [CHR 0xE2, CHR 0x80, CHR 0x82], [CHR 0xE2, CHR 0x80, CHR 0x83],
      [CHR 0xE2, CHR 0x80, CHR 0x84], [CHR 0xE2, CHR 0x80, CHR 0x85],
      [CHR 0xE2, CHR 0x80, CHR 0x86], [CHR 0xE2, CHR 0x80, CHR 0x87],
      [CHR 0xE2, CHR 0x80, CHR 0x88], [CHR 0xE2, CHR 0x80, CHR 0x89],
      [CHR 0xE2, CHR 0x80, CHR 0x8A], [CHR 0xE2, CHR 0x80, CHR 0xA8],
      [CHR 0xE2, CHR 0x80, CHR 0xA9], [CHR 0xE2, CHR 0x80, CHR 0xAF],
      [CHR 0xE2, CHR 0x81, CHR 0x9F], [CHR 0xE3, CHR 0x80, CHR 0x80],
      [CHR 0xEF, CHR 0xBB, CHR 0xBF]]"

function strip_prefixes :: "string list \<Rightarrow> string \<Rightarrow> string" where
  "strip_prefixes ws s =
     (case find (\<lambda>w. w \<noteq> [] \<and> prefix w s) ws of
        None \<Rightarrow> s
      | Some w \<Rightarrow> strip_prefixes ws (drop (length w) s))"
  by pat_completeness auto
termination
proof (relation "measure (\<lambda>(ws, s). length s)")
  show "wf (measure (\<lambda>(ws, s). length s))" by simp
next
  fix ws :: "string list" and s w :: string
  assume "find (\<lambda>w. w \<noteq> [] \<and> prefix w s) ws = Some w"
  then have "w \<noteq> []" "prefix w s"
    by (auto simp: find_Some_iff)
  then show "((ws, drop (length w) s), (ws, s)) \<in> measure (\<lambda>(ws, s). length s)"
    by (auto simp: prefix_def)
qed

declare strip_prefixes.simps [simp del]

definition trim :: "string \<Rightarrow> string" where
  "trim s = rev (strip_prefixes (map rev js_whitespace) (rev (strip_prefixes js_whitespace s)))"

fun join_comma :: "string list \<Rightarrow> string" where
  "join_comma [] = []"
| "join_comma [x] = x"
| "join_comma (x # y # ys) = x @ '','' @ join_comma (y # ys)"

text \<open>
  The conversion to a string that a template literal applies.  An object made by
  \<open>JSON.parse\<close> prints as \<open>[object Object]\<close> through \<open>Object.prototype.toString\<close>,
  unless it has an own property \<open>toString\<close>: that value is not a function, \<open>valueOf\<close>
  gives no primitive either, and the conversion throws a \<open>TypeError\<close>.  An array prints its
  elements joined by commas, \<open>null\<close> and \<open>undefined\<close> as the empty string; the
  conversion of an element may throw.
\<close>

definition type_error_primitive :: js_error where
  "type_error_primitive = JsError ''TypeError'' ''Cannot convert object to primitive value''"

fun js_toString :: "json \<Rightarrow> js_error + string"
  and join_elements :: "json list \<Rightarrow> js_error + string list" where
  "js_toString JUndefined = Inr ''undefined''"
| "js_toString JNull = Inr ''null''"
| "js_toString (JBool b) = Inr (if b then ''true'' else ''false'')"
| "js_toString (JNum t) = Inr t"
| "js_toString (JStr s) = Inr s"
| "js_toString (JArr xs) =
     (case join_elements xs of Inl e \<Rightarrow> Inl e | Inr ss \<Rightarrow> Inr (join_comma ss))"
| "js_toString (JObj kvs) =
     (if map_of kvs ''toString'' = None then Inr ''[object Object]'' else Inl type_error_primitive)"
| "join_elements [] = Inr []"
| "join_elements (x # xs) =
     (case (if x = JUndefined \<or> x = JNull then Inr [] else js_toString x) of
        Inl e \<Rightarrow> Inl e
      | Inr s \<Rightarrow> (case join_elements xs of Inl e \<Rightarrow> Inl e | Inr ss \<Rightarrow> Inr (s # ss)))"


section \<open>DataMapper of src/api/cnpj.js\<close>

text \<open>
  \<open>parseFloat\<close> is a function of the runtime on IEEE doubles; it is the parameter
  \<open>pf\<close>, which gives the rendering of the parsed number (\<open>''NaN''\<close> when the string
  does not start with a number).  A truthy value that is not a string has no \<open>replace\<close>
  method, the call throws and the \<open>catch\<close> returns 0.
\<close>

definition currency_text :: "string \<Rightarrow> string" where
  \<comment> \<open>\<^verbatim>\<open>value.replace('R$', '').replace(/\./g, '').replace(',', '.').trim()\<close>\<close>
  "currency_text s = trim (replace_first '','' ''.'' (replace_all_dots (replace_first ''R$'' [] s)))"

definition parseCurrency :: "(string \<Rightarrow> string) \<Rightarrow> json \<Rightarrow> json" where
  "parseCurrency pf v =
     (if \<not> truthy v then JNum ''0''
      else
        (case v of
           JStr s \<Rightarrow> js_or (JNum (pf (currency_text s))) (JNum ''0'')
         | _ \<Rightarrow> JNum ''0''))"

definition str_Socio :: string where
  \<comment> \<open>\<^verbatim>\<open>'S\<close>\<open>\<oacute>\<close>\<^verbatim>\<open>cio'\<close>\<close>
  "str_Socio = ''S'' @ [CHR 0xC3, CHR 0xB3] @ ''cio''"

definition member_of :: "json \<Rightarrow> js_error + json" where
  "member_of socio =
     (case js_prop socio ''nome'' of
        Inl e \<Rightarrow> Inl e
      | Inr nome \<Rightarrow>
          Inr (JObj
            [(''person'', JObj
               [(''name'', js_or nome JNull),
                (''age'', js_or (field socio ''faixa_etaria'') JNull)]),
             (''role'', JObj
               [(''text'', js_or (js_or (field (field socio ''qualificacao_socio'') ''descricao'')
                                    (field socio ''tipo''))
                             (JStr str_Socio))]),
             (''since'', field socio ''data_entrada'')]))"

definition has_name :: "json \<Rightarrow> bool" where
  \<comment> \<open>\<^verbatim>\<open>member => member.person.name\<close>\<close>
  "has_name member = truthy (field (field member ''person'') ''name'')"

definition api_mapMembers :: "json \<Rightarrow> js_error + json" where
  "api_mapMembers socios =
     (case socios of
        JArr xs \<Rightarrow>
          (case mapE member_of xs of
             Inl e \<Rightarrow> Inl e
           | Inr members \<Rightarrow> Inr (JArr (filter has_name members)))
      | _ \<Rightarrow> Inr (JArr []))"

text \<open>
  \<^verbatim>\<open>`${estabelecimento.tipo_logradouro || ''} ${estabelecimento.logradouro || ''}`.trim()\<close>:
  the two values are converted to strings from left to right, and either conversion may
  throw.
\<close>

definition street_of :: "json \<Rightarrow> js_error + json" where
  "street_of estabelecimento =
     (case js_toString (js_or (field estabelecimento ''tipo_logradouro'') (JStr [])) of
        Inl e \<Rightarrow> Inl e
      | Inr a \<Rightarrow>
          (case js_toString (js_or (field estabelecimento ''logradouro'') (JStr [])) of
             Inl e \<Rightarrow> Inl e
           | Inr b \<Rightarrow> Inr (JStr (trim (a @ '' '' @ b)))))"

definition api_mapAddress :: "json \<Rightarrow> js_error + json" where
  "api_mapAddress estabelecimento =
     (if \<not> truthy estabelecimento then Inr JNull
      else
        (case street_of estabelecimento of
           Inl e \<Rightarrow> Inl e
         | Inr street \<Rightarrow>
             Inr (JObj
               [(''street'', street),
                (''number'', field estabelecimento ''numero''),
                (''details'', field estabelecimento ''complemento''),
                (''district'', field estabelecimento ''bairro''),
                (''city'', field (field estabelecimento ''cidade'') ''nome''),
                (''state'', field (field estabelecimento ''estado'') ''sigla''),
                (''zip'', field estabelecimento ''cep''),
                (''country'', field (field estabelecimento ''pais'') ''nome''),
                (''municipality'', field (field estabelecimento ''cidade'') ''nome'')])))"

definition phone_of :: "json \<Rightarrow> string \<Rightarrow> string \<Rightarrow> json list" where
  "phone_of estabelecimento ddd telefone =
     (if truthy (field estabelecimento ddd) \<and> truthy (field estabelecimento telefone)
      then [JObj [(''area'', field estabelecimento ddd),
                  (''number'', field estabelecimento telefone),
                  (''type'', JStr ''LANDLINE'')]]
      else [])"

definition mapPhones :: "json \<Rightarrow> json" where
  "mapPhones estabelecimento =
     JArr (phone_of estabelecimento ''ddd1'' ''telefone1'' @
           phone_of estabelecimento ''ddd2'' ''telefone2'')"

definition mapEmails :: "json \<Rightarrow> json" where
  "mapEmails estabelecimento =
     (if \<not> truthy (field estabelecimento ''email'') then JArr []
      else JArr [JObj [(''address'', field estabelecimento ''email''),
                       (''ownership'', JStr ''CORPORATE'')]])"

definition mapActivity :: "json \<Rightarrow> json" where
  "mapActivity activity =
     (if \<not> truthy activity then JNull
      else JObj [(''id'', field activity ''id''), (''text'', field activity ''descricao'')])"

definition activity_of :: "json \<Rightarrow> js_error + json" where
  "activity_of activity =
     (case js_prop activity ''id'' of
        Inl e \<Rightarrow> Inl e
      | Inr i \<Rightarrow> Inr (JObj [(''id'', i), (''text'', field activity ''descricao'')]))"

definition api_mapActivities :: "json \<Rightarrow> js_error + json" where
  "api_mapActivities activities =
     (case activities of
        JArr xs \<Rightarrow> (case mapE activity_of xs of Inl e \<Rightarrow> Inl e | Inr ys \<Rightarrow> Inr (JArr ys))
      | _ \<Rightarrow> Inr (JArr []))"

definition registration_of :: "json \<Rightarrow> js_error + json" where
  "registration_of ie =
     (case js_prop ie ''inscricao_estadual'' of
        Inl e \<Rightarrow> Inl e
      | Inr number \<Rightarrow>
          Inr (JObj
            [(''type'', JObj [(''id'', JNum ''1''), (''text'', JStr ''Normal'')]),
             (''number'', number),
             (''state'', field (field ie ''estado'') ''sigla''),
             (''enabled'', field ie ''ativo''),
             (''status'', JObj [(''text'',
                JStr (if truthy (field ie ''ativo'') then ''Ativa'' else ''Inativa''))])]))"

definition mapRegistrations :: "json \<Rightarrow> js_error + json" where
  "mapRegistrations inscricoes =
     (case inscricoes of
        JArr xs \<Rightarrow> (case mapE registration_of xs of Inl e \<Rightarrow> Inl e | Inr ys \<Rightarrow> Inr (JArr ys))
      | _ \<Rightarrow> Inr (JArr []))"

definition nature_of :: "json \<Rightarrow> json" where
  "nature_of apiData =
     (if truthy (field apiData ''natureza_juridica'')
      then JObj [(''id'', field (field apiData ''natureza_juridica'') ''id''),
                 (''text'', field (field apiData ''natureza_juridica'') ''descricao'')]
      else JNull)"

definition size_of :: "json \<Rightarrow> json" where
  "size_of apiData =
     (if truthy (field apiData ''porte'')
      then JObj [(''text'', field (field apiData ''porte'') ''descricao''),
                 (''acronym'', field (field apiData ''porte'') ''id'')]
      else JNull)"

text \<open>
  The object literal is evaluated in the order it is written, so the first exception is
  that of the members, then of the address, of the side activities, of the registrations.
\<close>

definition api_mapToFrontendStructure :: "(string \<Rightarrow> string) \<Rightarrow> json \<Rightarrow> js_error + json" where
  "api_mapToFrontendStructure pf apiData =
     (case js_prop apiData ''estabelecimento'' of
        Inl e \<Rightarrow> Inl e
      | Inr est \<Rightarrow>
          let estabelecimento = js_or est (JObj []);
              simples = js_or (field apiData ''simples'') (JObj [])
          in
          (case api_mapMembers (field apiData ''socios'') of
             Inl e \<Rightarrow> Inl e
           | Inr members \<Rightarrow>
          (case api_mapAddress estabelecimento of
             Inl e \<Rightarrow> Inl e
           | Inr address \<Rightarrow>
          (case api_mapActivities (field estabelecimento ''atividades_secundarias'') of
             Inl e \<Rightarrow> Inl e
           | Inr sideActivities \<Rightarrow>
          (case mapRegistrations (field estabelecimento ''inscricoes_estaduais'') of
             Inl e \<Rightarrow> Inl e
           | Inr registrations \<Rightarrow>
             Inr (JObj
               [(''taxId'', js_or (field estabelecimento ''cnpj'') (field apiData ''cnpj_raiz'')),
                (''alias'', js_or (field estabelecimento ''nome_fantasia'') JNull),
                (''founded'', field estabelecimento ''data_inicio_atividade''),
                (''updated'', field apiData ''atualizado_em''),
                (''status'', JObj
                   [(''text'', js_or (field estabelecimento ''situacao_cadastral'') JNull)]),
                (''statusDate'', field estabelecimento ''data_situacao_cadastral''),
                (''head'', JBool (field estabelecimento ''tipo'' = JStr ''MATRIZ'')),
                (''company'', JObj
                   [(''name'', js_or (field apiData ''razao_social'') JNull),
                    (''nature'', nature_of apiData),
                    (''size'', size_of apiData),
                    (''equity'', parseCurrency pf (field apiData ''capital_social'')),
                    (''simples'', JObj
                       [(''optant'', JBool (field simples ''simples'' = JStr ''SIM'')),
                        (''since'', field simples ''data_opcao_simples'')]),
                    (''simei'', JObj
                       [(''optant'', JBool (field simples ''mei'' = JStr ''SIM'')),
                        (''since'', field simples ''data_opcao_mei'')]),
                    (''members'', members)]),
                (''address'', address),
                (''phones'', mapPhones estabelecimento),
                (''emails'', mapEmails estabelecimento),
                (''mainActivity'', mapActivity (field estabelecimento ''atividade_principal'')),
                (''sideActivities'', sideActivities),
                (''registrations'', registrations),
                (''suframa'', JArr [])]))))))"


section \<open>DataMapper of src/unnamed/part\_000\<close>

text \<open>
  The second mapper has the same \<open>parseCurrency\<close>, \<open>mapPhones\<close>, \<open>mapEmails\<close>,
  \<open>mapActivity\<close> and \<open>mapRegistrations\<close>; it keeps the first ten members and side
  activities, and has no \<open>simples\<close>, \<open>simei\<close> and \<open>municipality\<close>.
\<close>

definition opt_mapMembers :: "json \<Rightarrow> js_error + json" where
  "opt_mapMembers socios =
     (case socios of
        JArr xs \<Rightarrow>
          (case mapE member_of (take 10 xs) of
             Inl e \<Rightarrow> Inl e
           | Inr members \<Rightarrow> Inr (JArr (filter has_name members)))
      | _ \<Rightarrow> Inr (JArr []))"

definition opt_mapAddress :: "json \<Rightarrow> js_error + json" where
  "opt_mapAddress estabelecimento =
     (if \<not> truthy estabelecimento then Inr JNull
      else
        (case street_of estabelecimento of
           Inl e \<Rightarrow> Inl e
         | Inr street \<Rightarrow>
             Inr (JObj
               [(''street'', street),
                (''number'', field estabelecimento ''numero''),
                (''details'', field estabelecimento ''complemento''),
                (''district'', field estabelecimento ''bairro''),
                (''city'', field (field estabelecimento ''cidade'') ''nome''),
                (''state'', field (field estabelecimento ''estado'') ''sigla''),
                (''zip'', field estabelecimento ''cep''),
                (''country'', field (field estabelecimento ''pais'') ''nome'')])))"

definition opt_mapActivities :: "json \<Rightarrow> js_error + json" where
  "opt_mapActivities activities =
     (case activities of
        JArr xs \<Rightarrow>
          (case mapE activity_of (take 10 xs) of Inl e \<Rightarrow> Inl e | Inr ys \<Rightarrow> Inr (JArr ys))
      | _ \<Rightarrow> Inr (JArr []))"

definition opt_mapToFrontendStructure :: "(string \<Rightarrow> string) \<Rightarrow> json \<Rightarrow> js_error + json" where
  "opt_mapToFrontendStructure pf apiData =
     (case js_prop apiData ''estabelecimento'' of
        Inl e \<Rightarrow> Inl e
      | Inr est \<Rightarrow>
          let estabelecimento = js_or est (JObj []) in
          (case opt_mapMembers (field apiData ''socios'') of
             Inl e \<Rightarrow> Inl e
           | Inr members \<Rightarrow>
          (case opt_mapAddress estabelecimento of
             Inl e \<Rightarrow> Inl e
           | Inr address \<Rightarrow>
          (case opt_mapActivities (field estabelecimento ''atividades_secundarias'') of
             Inl e \<Rightarrow> Inl e
           | Inr sideActivities \<Rightarrow>
          (case mapRegistrations (field estabelecimento ''inscricoes_estaduais'') of
             Inl e \<Rightarrow> Inl e
           | Inr registrations \<Rightarrow>
             Inr (JObj
               [(''taxId'', js_or (field estabelecimento ''cnpj'') (field apiData ''cnpj_raiz'')),
                (''alias'', js_or (field estabelecimento ''nome_fantasia'') JNull),
                (''founded'', field estabelecimento ''data_inicio_atividade''),
                (''updated'', field apiData ''atualizado_em''),
                (''status'', JObj
                   [(''text'', js_or (field estabelecimento ''situacao_cadastral'') JNull)]),
                (''statusDate'', field estabelecimento ''data_situacao_cadastral''),
                (''head'', JBool (field estabelecimento ''tipo'' = JStr ''MATRIZ'')),
                (''company'', JObj
                   [(''name'', js_or (field apiData ''razao_social'') JNull),
                    (''nature'', nature_of apiData),
                    (''size'', size_of apiData),
                    (''equity'', parseCurrency pf (field apiData ''capital_social'')),
                    (''members'', members)]),
                (''address'', address),
                (''phones'', mapPhones estabelecimento),
                (''emails'', mapEmails estabelecimento),
                (''mainActivity'', mapActivity (field estabelecimento ''atividade_principal'')),
                (''sideActivities'', sideActivities),
                (''registrations'', registrations),
                (''suframa'', JArr [])]))))))"


section \<open>Requests, responses and the outside world\<close>

text \<open>
  \<open>req.query.cnpj\<close> is absent, a string, or (for a repeated parameter) an array of
  strings.  Of the request the handlers read the method, the headers
  \<open>x-forwarded-for\<close> and \<open>x-real-ip\<close> and \<open>req.connection.remoteAddress\<close>
  (the connection object itself is taken to exist).
\<close>

datatype query_value = Q_absent | Q_string string | Q_array "string list"

record request =
  req_method :: string
  req_x_forwarded_for :: "string option"
  req_x_real_ip :: "string option"
  req_remoteAddress :: "string option"
  req_query_cnpj :: query_value

text \<open>
  What \<open>fetch\<close> does is decided outside the program: the promise rejects (with an
  \<open>AbortError\<close> when the timer of the handler fires, with another error when the
  transport fails), or it yields a response with a status, whose \<open>text()\<close> and
  \<open>json()\<close> give a value or reject.
\<close>

datatype fetch_outcome =
    Fetch_rejects js_error
  | Fetch_response nat "js_error + string" "js_error + json"

text \<open>
  The environment of one request: the clock when the request arrives (\<open>env_now\<close>, read by
  \<open>checkRateLimit\<close> and by the cache look-up), the clock after the call of the registry
  has returned (\<open>env_later\<close>, read when the result is stored), the behaviour of
  \<open>fetch\<close> for a URL, the \<open>parseFloat\<close> of the runtime, and whether
  \<open>process.env.NODE_ENV\<close> is \<open>'development'\<close>.  One request is handled without
  another one running in between.
\<close>

record env =
  env_now :: int
  env_later :: int
  env_fetch :: "string \<Rightarrow> fetch_outcome"
  env_parseFloat :: "string \<Rightarrow> string"
  env_development :: bool

text \<open>
  A response: \<open>res.status(n).end()\<close> has no body; \<open>res.status(n).json(...)\<close> has the body
  \<^verbatim>\<open>{error: true, message, details}\<close> (\<open>details\<close> is left out of the JSON text when
  it is \<open>undefined\<close>) or \<^verbatim>\<open>{error: false, data, cached}\<close>.
\<close>

datatype body = No_body | Error_body string "string option" | Data_body json bool

record response =
  res_status :: nat
  res_headers :: "(string \<times> string) list"
  res_body :: body

definition query_falsy :: "query_value \<Rightarrow> bool" where
  \<comment> \<open>\<open>!cnpj\<close>: \<open>undefined\<close> and the empty string; an array is truthy\<close>
  "query_falsy q = (case q of Q_absent \<Rightarrow> True | Q_string s \<Rightarrow> s = [] | Q_array xs \<Rightarrow> False)"

definition sanitizeCNPJ :: "query_value \<Rightarrow> string" where
  \<comment> \<open>the same function in both servers\<close>
  "sanitizeCNPJ q = (case q of Q_string s \<Rightarrow> take 14 (strip_non_digits s) | _ \<Rightarrow> [])"

definition split_comma_first :: "string \<Rightarrow> string" where
  \<comment> \<open>\<^verbatim>\<open>s.split(',')[0]\<close>\<close>
  "split_comma_first s = takeWhile (\<lambda>c. c \<noteq> CHR '','') s"

fun first_truthy :: "string option list \<Rightarrow> string \<Rightarrow> string" where
  \<comment> \<open>\<^verbatim>\<open>a || b || ... || d\<close> on strings that may be \<open>undefined\<close>\<close>
  "first_truthy [] d = d"
| "first_truthy (None # rest) d = first_truthy rest d"
| "first_truthy (Some s # rest) d = (if s \<noteq> [] then s else first_truthy rest d)"

definition registry_url :: "string \<Rightarrow> string" where
  "registry_url cnpj = ''https://publica.cnpj.ws/cnpj/'' @ cnpj"

definition is_ok :: "nat \<Rightarrow> bool" where
  \<comment> \<open>\<open>response.ok\<close>\<close>
  "is_ok st = (200 \<le> st \<and> st \<le> 299)"

definition msg_metodo :: string where
  \<comment> \<open>\<^verbatim>\<open>'M\<close>\<open>\<eacute>\<close>\<^verbatim>\<open>todo n\<close>\<open>\<atilde>\<close>\<^verbatim>\<open>o permitido'\<close>\<close>
  "msg_metodo = ''M'' @ [CHR 0xC3, CHR 0xA9] @ ''todo n'' @ [CHR 0xC3, CHR 0xA3] @ ''o permitido''"

definition msg_nao_informado :: string where
  \<comment> \<open>\<^verbatim>\<open>'CNPJ n\<close>\<open>\<atilde>\<close>\<^verbatim>\<open>o informado'\<close>\<close>
  "msg_nao_informado = ''CNPJ n'' @ [CHR 0xC3, CHR 0xA3] @ ''o informado''"

definition msg_limite :: string where
  \<comment> \<open>\<^verbatim>\<open>'Limite de requisi\<close>\<open>\<ccedilla>\<otilde>\<close>\<^verbatim>\<open>es excedido. Tente novamente em 1 minuto.'\<close>\<close>
  "msg_limite = ''Limite de requisi'' @ [CHR 0xC3, CHR 0xA7, CHR 0xC3, CHR 0xB5] @
     ''es excedido. Tente novamente em 1 minuto.''"

definition str_nao_encontrado :: string where
  \<comment> \<open>\<^verbatim>\<open>'n\<close>\<open>\<atilde>\<close>\<^verbatim>\<open>o encontrado'\<close>\<close>
  "str_nao_encontrado = ''n'' @ [CHR 0xC3, CHR 0xA3] @ ''o encontrado''"

definition msg_nao_encontrada :: string where
  \<comment> \<open>\<^verbatim>\<open>'Empresa n\<close>\<open>\<atilde>\<close>\<^verbatim>\<open>o encontrada'\<close>\<close>
  "msg_nao_encontrada = ''Empresa n'' @ [CHR 0xC3, CHR 0xA3] @ ''o encontrada''"

definition msg_indisponivel :: string where
  \<comment> \<open>\<^verbatim>\<open>'Servi\<close>\<open>\<ccedilla>\<close>\<^verbatim>\<open>o temporariamente indispon\<close>\<open>\<iacute>\<close>\<^verbatim>\<open>vel'\<close>\<close>
  "msg_indisponivel = ''Servi'' @ [CHR 0xC3, CHR 0xA7] @ ''o temporariamente indispon'' @
     [CHR 0xC3, CHR 0xAD] @ ''vel''"

definition msg_limite_externo :: string where
  "msg_limite_externo = ''API externa com limite excedido''"

definition msg_erro_interno :: string where
  "msg_erro_interno = ''Erro interno do servidor''"


section \<open>The handler of src/api/cnpj.js\<close>

record api_state =
  st_rateLimitMap :: "(string, int) js_map"
  st_requestCache :: "(string, json cache_entry) js_map"

definition api_headers :: "(string \<times> string) list" where
  "api_headers =
     [(''Access-Control-Allow-Origin'', ''*''),
      (''Access-Control-Allow-Methods'', ''GET, OPTIONS''),
      (''Access-Control-Allow-Headers'', ''Content-Type, Authorization, X-Requested-With''),
      (''Access-Control-Max-Age'', ''86400''),
      (''X-Content-Type-Options'', ''nosniff''),
      (''X-Frame-Options'', ''DENY''),
      (''X-XSS-Protection'', ''1; mode=block''),
      (''Referrer-Policy'', ''strict-origin-when-cross-origin'')]"

definition api_getClientIP :: "request \<Rightarrow> string" where
  "api_getClientIP req =
     first_truthy
       [map_option split_comma_first (req_x_forwarded_for req),
        req_x_real_ip req,
        req_remoteAddress req] ''unknown''"

definition api_rethrow :: "js_error \<Rightarrow> js_error" where
  \<comment> \<open>the \<open>catch\<close> of \<open>fetchCNPJData\<close>\<close>
  "api_rethrow e =
     (if err_name e = ''AbortError'' then JsError ''Error'' ''Timeout na consulta da API externa''
      else e)"

definition api_fetchCNPJData :: "env \<Rightarrow> string \<Rightarrow> js_error + json" where
  "api_fetchCNPJData ev cnpj =
     (case env_fetch ev (registry_url cnpj) of
        Fetch_rejects e \<Rightarrow> Inl (api_rethrow e)
      | Fetch_response st text_result json_result \<Rightarrow>
          if \<not> is_ok st then
            (case text_result of
               Inl e \<Rightarrow> Inl (api_rethrow e)
             | Inr errorText \<Rightarrow>
                 Inl (api_rethrow (JsError ''Error''
                   (''API externa retornou status '' @ Number_toString (int st) @ '': '' @ errorText))))
          else
            (case json_result of
               Inl e \<Rightarrow> Inl (api_rethrow e)
             | Inr d \<Rightarrow> Inr d))"

definition api_error_response :: "env \<Rightarrow> js_error \<Rightarrow> response" where
  \<comment> \<open>the \<open>catch\<close> of the handler\<close>
  "api_error_response ev e =
     (let message = err_message e;
          (statusCode, errorMessage) =
            (if js_includes message ''Timeout'' then (408, ''Timeout na consulta externa'')
             else if js_includes message ''404'' \<or> js_includes message str_nao_encontrado
               then (404, msg_nao_encontrada)
             else if js_includes message ''429'' then (429, msg_limite_externo)
             else if js_includes message ''Failed to fetch'' \<or> js_includes message ''Network''
               then (503, msg_indisponivel)
             else (500, msg_erro_interno))
      in \<lparr>res_status = statusCode, res_headers = api_headers,
          res_body = Error_body errorMessage (if env_development ev then Some message else None)\<rparr>)"

definition msg_dados_invalidos_api :: string where
  \<comment> \<open>\<^verbatim>\<open>'Dados inv\<close>\<open>\<aacute>\<close>\<^verbatim>\<open>lidos retornados pela API'\<close>\<close>
  "msg_dados_invalidos_api = ''Dados inv'' @ [CHR 0xC3, CHR 0xA1] @ ''lidos retornados pela API''"

text \<open>
  The handler returns the response, the tables after the request, and the URLs for which
  \<open>fetch\<close> was called.  \<open>api_lookup\<close> is the rest of the \<open>try\<close> block after a
  cache miss, with the \<open>catch\<close>: the call of the registry, the mapping, the test of
  \<open>taxId\<close> and the write to the cache.
\<close>

definition api_lookup :: "env \<Rightarrow> string \<Rightarrow> api_state \<Rightarrow> response \<times> api_state \<times> string list" where
  "api_lookup ev cleaned st2 =
     (case api_fetchCNPJData ev cleaned of
        Inl e \<Rightarrow> (api_error_response ev e, st2, [registry_url cleaned])
      | Inr apiData \<Rightarrow>
          (case api_mapToFrontendStructure (env_parseFloat ev) apiData of
             Inl e \<Rightarrow> (api_error_response ev e, st2, [registry_url cleaned])
           | Inr mappedData \<Rightarrow>
               if \<not> truthy (field mappedData ''taxId'') then
                 (api_error_response ev (JsError ''Error'' msg_dados_invalidos_api),
                  st2, [registry_url cleaned])
               else
                 (\<lparr>res_status = 200, res_headers = api_headers,
                   res_body = Data_body mappedData False\<rparr>,
                  st2\<lparr>st_requestCache :=
                    CacheManager_set (env_later ev) cleaned mappedData (st_requestCache st2)\<rparr>,
                  [registry_url cleaned])))"

definition api_handler :: "env \<Rightarrow> request \<Rightarrow> api_state \<Rightarrow> response \<times> api_state \<times> string list" where
  "api_handler ev req st =
     (if req_method req = ''OPTIONS'' then
        (\<lparr>res_status = 200, res_headers = api_headers, res_body = No_body\<rparr>, st, [])
      else if req_method req \<noteq> ''GET'' then
        (\<lparr>res_status = 405, res_headers = api_headers, res_body = Error_body msg_metodo None\<rparr>,
         st, [])
      else
        let clientIP = api_getClientIP req;
            cnpj = req_query_cnpj req
        in
        if query_falsy cnpj then
          (\<lparr>res_status = 400, res_headers = api_headers,
            res_body = Error_body msg_nao_informado None\<rparr>, st, [])
        else
          let sanitizedCNPJ = sanitizeCNPJ cnpj in
          (case api_checkRateLimit (env_now ev) clientIP sanitizedCNPJ (st_rateLimitMap st) of
             (admitted, rl) \<Rightarrow>
               let st1 = st\<lparr>st_rateLimitMap := rl\<rparr> in
               if \<not> admitted then
                 (\<lparr>res_status = 429, res_headers = api_headers,
                   res_body = Error_body msg_limite None\<rparr>, st1, [])
               else
                 (case api_validate sanitizedCNPJ of
                    Invalid e \<Rightarrow>
                      (\<lparr>res_status = 400, res_headers = api_headers,
                        res_body = Error_body e None\<rparr>, st1, [])
                  | Valid cleaned \<Rightarrow>
                      (case CacheManager_get (env_now ev) cleaned (st_requestCache st1) of
                         (cachedData, rc) \<Rightarrow>
                           let st2 = st1\<lparr>st_requestCache := rc\<rparr> in
                           (case (case cachedData of
                                    None \<Rightarrow> None
                                  | Some d \<Rightarrow> if truthy d then Some d else None) of
                              Some d \<Rightarrow>
                                (\<lparr>res_status = 200, res_headers = api_headers,
                                  res_body = Data_body d True\<rparr>, st2, [])
                            | None \<Rightarrow> api_lookup ev cleaned st2)))))"


section \<open>The handler of src/unnamed/part\_000\<close>

record opt_state =
  ost_rateLimitMap :: "(string, int) js_map"
  ost_requestCache :: "json LRUCache"

definition opt_headers :: "(string \<times> string) list" where
  "opt_headers =
     [(''Access-Control-Allow-Origin'', ''*''),
      (''Access-Control-Allow-Methods'', ''GET, OPTIONS''),
      (''Access-Control-Allow-Headers'', ''Content-Type, Authorization''),
      (''X-Content-Type-Options'', ''nosniff''),
      (''X-Frame-Options'', ''DENY'')]"

definition opt_getClientIP :: "request \<Rightarrow> string" where
  "opt_getClientIP req =
     first_truthy
       [map_option (\<lambda>h. trim (split_comma_first h)) (req_x_forwarded_for req),
        req_remoteAddress req] ''unknown''"

definition opt_rethrow :: "js_error \<Rightarrow> js_error" where
  "opt_rethrow e =
     (if err_name e = ''AbortError'' then JsError ''Error'' ''Timeout na consulta'' else e)"

definition opt_fetchCNPJData :: "env \<Rightarrow> string \<Rightarrow> js_error + json" where
  \<comment> \<open>a rejection of \<open>response.text()\<close> is replaced by \<open>'Unknown error'\<close>; the text is not used\<close>
  "opt_fetchCNPJData ev cnpj =
     (case env_fetch ev (registry_url cnpj) of
        Fetch_rejects e \<Rightarrow> Inl (opt_rethrow e)
      | Fetch_response st text_result json_result \<Rightarrow>
          if \<not> is_ok st then
            Inl (opt_rethrow (JsError ''Error'' (''API externa: '' @ Number_toString (int st))))
          else
            (case json_result of
               Inl e \<Rightarrow> Inl (opt_rethrow e)
             | Inr d \<Rightarrow> Inr d))"

definition opt_error_response :: "js_error \<Rightarrow> response" where
  "opt_error_response e =
     (let message = err_message e;
          (statusCode, errorMessage) =
            (if js_includes message ''Timeout'' then (408, ''Timeout na consulta'')
             else if js_includes message ''404'' then (404, msg_nao_encontrada)
             else if js_includes message ''429'' then (429, msg_limite_externo)
             else (500, msg_erro_interno))
      in \<lparr>res_status = statusCode, res_headers = opt_headers,
          res_body = Error_body errorMessage None\<rparr>)"

definition msg_dados_invalidos_opt :: string where
  \<comment> \<open>\<^verbatim>\<open>'Dados inv\<close>\<open>\<aacute>\<close>\<^verbatim>\<open>lidos da API'\<close>\<close>
  "msg_dados_invalidos_opt = ''Dados inv'' @ [CHR 0xC3, CHR 0xA1] @ ''lidos da API''"

definition opt_catch :: "env \<Rightarrow> js_error \<Rightarrow> opt_state \<Rightarrow> string list \<Rightarrow> response \<times> opt_state \<times> string list" where
  \<comment> \<open>the \<open>catch\<close> of the handler: \<open>requestCache.cleanup()\<close>, then the response\<close>
  "opt_catch ev e st calls =
     (opt_error_response e,
      st\<lparr>ost_requestCache := LRUCache_cleanup (env_later ev) (ost_requestCache st)\<rparr>,
      calls)"

definition opt_lookup :: "env \<Rightarrow> string \<Rightarrow> opt_state \<Rightarrow> response \<times> opt_state \<times> string list" where
  \<comment> \<open>the rest of the \<open>try\<close> block after a cache miss\<close>
  "opt_lookup ev cleaned st2 =
     (case opt_fetchCNPJData ev cleaned of
        Inl e \<Rightarrow> opt_catch ev e st2 [registry_url cleaned]
      | Inr apiData \<Rightarrow>
          (case opt_mapToFrontendStructure (env_parseFloat ev) apiData of
             Inl e \<Rightarrow> opt_catch ev e st2 [registry_url cleaned]
           | Inr mappedData \<Rightarrow>
               if \<not> truthy (field mappedData ''taxId'') then
                 opt_catch ev (JsError ''Error'' msg_dados_invalidos_opt) st2 [registry_url cleaned]
               else
                 (\<lparr>res_status = 200, res_headers = opt_headers,
                   res_body = Data_body mappedData False\<rparr>,
                  st2\<lparr>ost_requestCache :=
                    LRUCache_set (env_later ev) cleaned mappedData (ost_requestCache st2)\<rparr>,
                  [registry_url cleaned])))"

definition opt_handler :: "env \<Rightarrow> request \<Rightarrow> opt_state \<Rightarrow> response \<times> opt_state \<times> string list" where
  "opt_handler ev req st =
     (if req_method req = ''OPTIONS'' then
        (\<lparr>res_status = 200, res_headers = opt_headers, res_body = No_body\<rparr>, st, [])
      else if req_method req \<noteq> ''GET'' then
        (\<lparr>res_status = 405, res_headers = opt_headers, res_body = Error_body msg_metodo None\<rparr>,
         st, [])
      else
        let clientIP = opt_getClientIP req in
        (case opt_checkRateLimit (env_now ev) clientIP (ost_rateLimitMap st) of
           (admitted, rl) \<Rightarrow>
             let st1 = st\<lparr>ost_rateLimitMap := rl\<rparr> in
             if \<not> admitted then
               (\<lparr>res_status = 429, res_headers = opt_headers,
                 res_body = Error_body msg_limite None\<rparr>, st1, [])
             else
               let cnpj = req_query_cnpj req in
               if query_falsy cnpj then
                 (\<lparr>res_status = 400, res_headers = opt_headers,
                   res_body = Error_body msg_nao_informado None\<rparr>, st1, [])
               else
                 let sanitizedCNPJ = sanitizeCNPJ cnpj in
                 (case opt_validate sanitizedCNPJ of
                    Invalid e \<Rightarrow>
                      (\<lparr>res_status = 400, res_headers = opt_headers,
                        res_body = Error_body e None\<rparr>, st1, [])
                  | Valid cleaned \<Rightarrow>
                      (case LRUCache_get cleaned (ost_requestCache st1) of
                         (cachedData, rc) \<Rightarrow>
                           let st2 = st1\<lparr>ost_requestCache := rc\<rparr> in
                           (case (case cachedData of
                                    None \<Rightarrow> None
                                  | Some entry \<Rightarrow>
                                      if env_now ev - timestamp entry < opt_CACHE_TTL
                                      then Some entry else None) of
                              Some entry \<Rightarrow>
                                (\<lparr>res_status = 200, res_headers = opt_headers,
                                  res_body = Data_body (data entry) True\<rparr>, st2, [])
                            | None \<Rightarrow> opt_lookup ev cleaned st2)))))"


section \<open>Initial tables and example inputs\<close>

text \<open>The tables when the module is loaded.\<close>

definition api_initial :: api_state where
  "api_initial = \<lparr>st_rateLimitMap = [], st_requestCache = []\<rparr>"

definition opt_initial :: opt_state where
  "opt_initial = \<lparr>ost_rateLimitMap = [], ost_requestCache = LRUCache_new opt_MAX_CACHE_SIZE\<rparr>"

text \<open>
  A request from the address 203.0.113.7, and an environment in which \<open>fetch\<close> has the
  given outcome.  The payloads of the examples have no \<open>capital_social\<close>, so that
  \<open>parseFloat\<close> is not called; the example environment lets it answer \<open>NaN\<close>.
\<close>

definition example_request :: "string \<Rightarrow> query_value \<Rightarrow> request" where
  "example_request m q =
     \<lparr>req_method = m, req_x_forwarded_for = Some ''203.0.113.7'', req_x_real_ip = None,
      req_remoteAddress = Some ''10.0.0.1'', req_query_cnpj = q\<rparr>"

definition example_parseFloat :: "string \<Rightarrow> string" where
  "example_parseFloat s = ''NaN''"

definition example_env :: "fetch_outcome \<Rightarrow> env" where
  "example_env outcome =
     \<lparr>env_now = 1700000000000, env_later = 1700000000250, env_fetch = (\<lambda>url. outcome),
      env_parseFloat = example_parseFloat, env_development = False\<rparr>"


















text \<open>What the two mappers return for the payload \<^verbatim>\<open>{}\<close>.\<close>

definition api_mapped_empty :: json where
  "api_mapped_empty =
     JObj
       [(''taxId'', JUndefined), (''alias'', JNull), (''founded'', JUndefined),
        (''updated'', JUndefined), (''status'', JObj [(''text'', JNull)]),
        (''statusDate'', JUndefined), (''head'', JBool False),
        (''company'', JObj
           [(''name'', JNull), (''nature'', JNull), (''size'', JNull), (''equity'', JNum ''0''),
            (''simples'', JObj [(''optant'', JBool False), (''since'', JUndefined)]),
            (''simei'', JObj [(''optant'', JBool False), (''since'', JUndefined)]),
            (''members'', JArr [])]),
        (''address'', JObj
           [(''street'', JStr []), (''number'', JUndefined), (''details'', JUndefined),
            (''district'', JUndefined), (''city'', JUndefined), (''state'', JUndefined),
            (''zip'', JUndefined), (''country'', JUndefined), (''municipality'', JUndefined)]),
        (''phones'', JArr []), (''emails'', JArr []), (''mainActivity'', JNull),
        (''sideActivities'', JArr []), (''registrations'', JArr []), (''suframa'', JArr [])]"

definition opt_mapped_empty :: json where
  "opt_mapped_empty =
     JObj
       [(''taxId'', JUndefined), (''alias'', JNull), (''founded'', JUndefined),
        (''updated'', JUndefined), (''status'', JObj [(''text'', JNull)]),
        (''statusDate'', JUndefined), (''head'', JBool False),
        (''company'', JObj
           [(''name'', JNull), (''nature'', JNull), (''size'', JNull), (''equity'', JNum ''0''),
            (''members'', JArr [])]),
        (''address'', JObj
           [(''street'', JStr []), (''number'', JUndefined), (''details'', JUndefined),
            (''district'', JUndefined), (''city'', JUndefined), (''state'', JUndefined),
            (''zip'', JUndefined), (''country'', JUndefined)]),
        (''phones'', JArr []), (''emails'', JArr []), (''mainActivity'', JNull),
        (''sideActivities'', JArr []), (''registrations'', JArr []), (''suframa'', JArr [])]"


section \<open>Verified properties: the checksum validator\<close>

lemma length14_cases:
  assumes "length (xs::'a list) = 14"
  obtains c0 c1 c2 c3 c4 c5 c6 c7 c8 c9 c10 c11 c12 c13
  where "xs = [c0, c1, c2, c3, c4, c5, c6, c7, c8, c9, c10, c11, c12, c13]"
proof -
  from assms have "length xs = Suc (Suc (Suc (Suc (Suc (Suc (Suc (Suc (Suc (Suc (Suc (Suc (Suc (Suc 0)))))))))))))"
    by simp
  then show ?thesis
    by (auto simp: length_Suc_conv intro: that)
qed

lemma api_resultado_check_digit: "api_resultado s = check_digit s"
  by (simp add: api_resultado_def check_digit_def Let_def)

lemma js_rem_nonneg: "0 \<le> a \<Longrightarrow> js_rem a 11 = a mod 11"
  by (cases "a = 0") (simp_all add: js_rem_def)

lemma digit_value_range: "is_digit c \<Longrightarrow> 0 \<le> digit_value c \<and> digit_value c \<le> 9"
  by (auto simp: is_digit_def digit_value_def)

lemma api_soma_12:
  "api_soma_loop [c0, c1, c2, c3, c4, c5, c6, c7, c8, c9, c10, c11] 12 12 0 5 =
   sum_loop [c0, c1, c2, c3, c4, c5, c6, c7, c8, c9, c10, c11, c12, c13] 12 0 0 5"
  by (simp add: api_soma_loop.simps sum_loop.simps charAt_value_def)

lemma api_soma_13:
  "api_soma_loop [c0, c1, c2, c3, c4, c5, c6, c7, c8, c9, c10, c11, c12] 13 13 0 6 =
   sum_loop [c0, c1, c2, c3, c4, c5, c6, c7, c8, c9, c10, c11, c12, c13] 13 0 0 6"
  by (simp add: api_soma_loop.simps sum_loop.simps charAt_value_def)

lemma api_validate_unfold:
  assumes "length (strip_non_digits s) = 14"
  shows "api_validate s =
     (let c = strip_non_digits s in
      if repeated_digit c then Invalid msg_cnpj_invalido
      else if api_resultado (api_soma_loop (take 12 c) 12 12 0 5) \<noteq> charAt_value (drop 12 c) 0
        then Invalid msg_cnpj_invalido
      else if api_resultado (api_soma_loop (take 13 c) 13 13 0 6) \<noteq> charAt_value (drop 12 c) 1
        then Invalid msg_cnpj_invalido
      else Valid c)"
  using assms by (simp add: api_validate_def Let_def)

lemma api_validate_eq: "api_validate s = opt_validate s"
proof (cases "length (strip_non_digits s) = 14")
  case False
  then show ?thesis by (simp add: api_validate_def opt_validate_def)
next
  case True
  then obtain c0 c1 c2 c3 c4 c5 c6 c7 c8 c9 c10 c11 c12 c13
    where c: "strip_non_digits s = [c0, c1, c2, c3, c4, c5, c6, c7, c8, c9, c10, c11, c12, c13]"
    by (rule length14_cases)
  have a: "api_soma_loop (take 12 (strip_non_digits s)) 12 12 0 5 = sum_loop (strip_non_digits s) 12 0 0 5"
    unfolding c using api_soma_12 [of c0 c1 c2 c3 c4 c5 c6 c7 c8 c9 c10 c11 c12 c13] by simp
  have b: "api_soma_loop (take 13 (strip_non_digits s)) 13 13 0 6 = sum_loop (strip_non_digits s) 13 0 0 6"
    unfolding c using api_soma_13 [of c0 c1 c2 c3 c4 c5 c6 c7 c8 c9 c10 c11 c12 c13] by simp
  have d: "charAt_value (drop 12 (strip_non_digits s)) 0 = digit_value (strip_non_digits s ! 12)"
    "charAt_value (drop 12 (strip_non_digits s)) (Suc 0) = digit_value (strip_non_digits s ! 13)"
    unfolding c by (simp_all add: charAt_value_def)
  show ?thesis
    by (simp add: api_validate_unfold [OF True] opt_validate_def True a b d api_resultado_check_digit Let_def)
qed


lemma opt_validate_eq: "opt_validate s = script_validate s"
  by (simp add: opt_validate_def script_validate_def clean_def)

lemma strip_non_digits_digits: "x \<in> set (strip_non_digits s) \<Longrightarrow> is_digit x"
  by (simp add: strip_non_digits_def)

lemma sum_loop_12_spec:
  "sum_loop [c0, c1, c2, c3, c4, c5, c6, c7, c8, c9, c10, c11, c12, c13] 12 0 0 5 =
   sum_list (map2 (\<lambda>c w. digit_value c * w)
     (take 12 [c0, c1, c2, c3, c4, c5, c6, c7, c8, c9, c10, c11, c12, c13]) spec_weights1)"
  by (simp add: sum_loop.simps spec_weights1_def)

lemma sum_loop_13_spec:
  "sum_loop [c0, c1, c2, c3, c4, c5, c6, c7, c8, c9, c10, c11, c12, c13] 13 0 0 6 =
   sum_list (map2 (\<lambda>c w. digit_value c * w)
     (take 13 [c0, c1, c2, c3, c4, c5, c6, c7, c8, c9, c10, c11, c12, c13]) spec_weights2)"
  by (simp add: sum_loop.simps spec_weights2_def)

lemma sum_list_weighted_nonneg:
  assumes "\<forall>x\<in>set ds. is_digit x" "\<forall>w\<in>set ws. (0::int) \<le> w"
  shows "0 \<le> sum_list (map2 (\<lambda>c w. digit_value c * w) ds ws)"
proof (rule sum_list_nonneg)
  fix x assume "x \<in> set (map2 (\<lambda>c w. digit_value c * w) ds ws)"
  then obtain c w where "x = digit_value c * w" "c \<in> set ds" "w \<in> set ws"
    by (auto dest: set_zip_leftD set_zip_rightD)
  with assms show "0 \<le> x" by (simp add: digit_value_range)
qed

lemma check_digit_spec:
  assumes "\<forall>x\<in>set ds. is_digit x" "\<forall>w\<in>set ws. (0::int) \<le> w"
  shows "check_digit (sum_list (map2 (\<lambda>c w. digit_value c * w) ds ws)) = spec_check_digit ws ds"
  using sum_list_weighted_nonneg [OF assms]
  by (simp add: check_digit_def spec_check_digit_def js_rem_nonneg)

lemma repeated_digit_all_identical:
  assumes "length c = 14" "\<forall>x\<in>set c. is_digit x"
  shows "repeated_digit c = all_identical c"
  using assms by (cases c) (auto simp: repeated_digit_def all_identical_def)

lemma script_validate_spec:
  "script_validate raw =
     (case spec_validate raw of Inl r \<Rightarrow> Invalid (if r = WrongLength then msg_14_digitos else msg_cnpj_invalido)
      | Inr c \<Rightarrow> Valid c)"
proof (cases "length (strip_non_digits raw) = 14")
  case False
  then show ?thesis by (simp add: script_validate_def spec_validate_def clean_def)
next
  case True
  then obtain c0 c1 c2 c3 c4 c5 c6 c7 c8 c9 c10 c11 c12 c13
    where c: "strip_non_digits raw = [c0, c1, c2, c3, c4, c5, c6, c7, c8, c9, c10, c11, c12, c13]"
    by (rule length14_cases)
  have dig: "\<forall>x\<in>set (strip_non_digits raw). is_digit x"
    by (simp add: strip_non_digits_digits)
  have dig12: "\<forall>x\<in>set (take 12 (strip_non_digits raw)). is_digit x"
    and dig13: "\<forall>x\<in>set (take 13 (strip_non_digits raw)). is_digit x"
    using dig by (auto dest: in_set_takeD)
  have w1: "\<forall>w\<in>set spec_weights1. (0::int) \<le> w" and w2: "\<forall>w\<in>set spec_weights2. (0::int) \<le> w"
    by (simp_all add: spec_weights1_def spec_weights2_def)
  have a: "check_digit (sum_loop (strip_non_digits raw) 12 0 0 5) =
           spec_check_digit spec_weights1 (take 12 (strip_non_digits raw))"
    using check_digit_spec [OF dig12 w1] unfolding c sum_loop_12_spec by simp
  have b: "check_digit (sum_loop (strip_non_digits raw) 13 0 0 6) =
           spec_check_digit spec_weights2 (take 13 (strip_non_digits raw))"
    using check_digit_spec [OF dig13 w2] unfolding c sum_loop_13_spec by simp
  show ?thesis
    by (simp add: script_validate_def spec_validate_def clean_def True a b
        repeated_digit_all_identical [OF True dig] Let_def)
qed

text \<open>
  Claim C1.  For every input string, \<open>validate\<close> (the server's and the browser's)
  strips the non-digits, rejects a result that has not exactly 14 digits, rejects 14
  identical digits, and otherwise accepts exactly when the two check digits of the
  specification (weights 5,4,3,2,9,8,7,6,5,4,3,2 over the first 12 digits, weights from 6
  over the first 13, \<open>11 - (sum mod 11)\<close> clamped to 0 above 9) equal positions 12 and
  13; on success it returns the cleaned string.  The fixture 12345678000195 is accepted.
\<close>

theorem validate_meets_spec:
  "(case spec_validate raw of
      Inl r \<Rightarrow>
        api_validate raw = Invalid (if r = WrongLength then msg_14_digitos else msg_cnpj_invalido) \<and>
        script_validate raw = Invalid (if r = WrongLength then msg_14_digitos else msg_cnpj_invalido)
    | Inr c \<Rightarrow> api_validate raw = Valid c \<and> script_validate raw = Valid c \<and>
        c = strip_non_digits raw \<and> length c = 14) \<and>
   api_validate ''12345678000195'' = Valid ''12345678000195'' \<and>
   script_validate ''12345678000195'' = Valid ''12345678000195''"
proof -
  have 1: "api_validate raw = script_validate raw"
    by (simp add: api_validate_eq opt_validate_eq)
  have 2: "spec_validate raw = Inr c \<Longrightarrow> c = strip_non_digits raw \<and> length c = 14" for c
    by (auto simp: spec_validate_def Let_def split: if_splits)
  have 3: "script_validate ''12345678000195'' = Valid ''12345678000195''"
    by code_simp
  have 4: "api_validate ''12345678000195'' = Valid ''12345678000195''"
    by code_simp
  show ?thesis
    using 2 3 4 by (auto simp: 1 script_validate_spec split: sum.splits)
qed

theorem validate_meets_spec_witness:
  "spec_validate ''12.345.678/0001-95'' = Inr ''12345678000195'' \<and>
   api_validate ''12.345.678/0001-95'' = Valid ''12345678000195'' \<and>
   script_validate ''12.345.678/0001-95'' = Valid ''12345678000195''"
proof -
  have s: "spec_validate ''12.345.678/0001-95'' = Inr ''12345678000195''"
    by code_simp
  show ?thesis
    using validate_meets_spec [of "''12.345.678/0001-95''"] by (simp add: s)
qed

text \<open>
  Claim C6.  The claim asks for a repeated-digit reason that differs from the check-digit
  reason, as the tests of src/test/cnpj-validator.test.js do.  The code reports the same
  message for both: 11111111111111 (all digits equal) and 11111111111112 (wrong check
  digit) get the identical result, and neither message is the one the tests expect.
\<close>

theorem validate_reasons_coincide:
  "script_validate ''11111111111111'' = Invalid msg_cnpj_invalido \<and>
   script_validate ''11111111111112'' = Invalid msg_cnpj_invalido \<and>
   api_validate ''11111111111111'' = api_validate ''11111111111112'' \<and>
   spec_validate ''11111111111111'' = Inl RepeatedDigit \<and>
   spec_validate ''11111111111112'' = Inl BadCheckDigit \<and>
   validation_error (script_validate ''11.111.111/1111-11'') \<noteq> test_msg_repetidos \<and>
   validation_error (script_validate ''12.345.678/0001-00'') \<noteq> test_msg_digito"
proof -
  have "script_validate ''11111111111111'' = Invalid msg_cnpj_invalido" by code_simp
  moreover have "script_validate ''11111111111112'' = Invalid msg_cnpj_invalido" by code_simp
  moreover have "api_validate ''11111111111111'' = api_validate ''11111111111112''" by code_simp
  moreover have "spec_validate ''11111111111111'' = Inl RepeatedDigit" by code_simp
  moreover have "spec_validate ''11111111111112'' = Inl BadCheckDigit" by code_simp
  moreover have "validation_error (script_validate ''11.111.111/1111-11'') \<noteq> test_msg_repetidos"
    by code_simp
  moreover have "validation_error (script_validate ''12.345.678/0001-00'') \<noteq> test_msg_digito"
    by code_simp
  ultimately show ?thesis by blast
qed

text \<open>
  Claim C10.  The three validators (src/api/cnpj.js, src/unnamed/part\_000 and
  src/public/script.js) return the same result for every input string, hence the same
  verdict and the same cleaned string; and the two formulations of the check digit,
  \<^verbatim>\<open>soma % 11 < 2 ? 0 : 11 - (soma % 11)\<close> and \<^verbatim>\<open>11 - (sum % 11)\<close> set to 0 above 9,
  give the same digit for every integer sum.
\<close>

theorem validators_agree:
  "api_validate raw = opt_validate raw \<and> opt_validate raw = script_validate raw \<and>
   isValid (api_validate raw) = isValid (script_validate raw) \<and>
   api_resultado soma = check_digit soma"
  by (simp add: api_validate_eq opt_validate_eq api_resultado_check_digit)


section \<open>Verified properties: the Map, the caches and the rate limiters\<close>

lemma digit_char_inj:
  assumes "0 \<le> a" "a < 10" "0 \<le> b" "b < 10" "digit_char a = digit_char b"
  shows "a = b"
proof -
  from assms(5) have "(of_char (digit_char a) :: int) = of_char (digit_char b)"
    by simp
  then have "(48 + a) mod 256 = (48 + b) mod 256"
    by (simp add: digit_char_def)
  with assms(1-4) show ?thesis by simp
qed

lemma int_digits_nonempty: "int_digits n \<noteq> []"
  by (subst int_digits.simps) simp

lemma int_digits_inj:
  "0 \<le> n \<Longrightarrow> 0 \<le> m \<Longrightarrow> int_digits n = int_digits m \<Longrightarrow> n = m"
proof (induction n arbitrary: m rule: int_digits.induct)
  case (1 n)
  show ?case
  proof (cases "n < 10")
    case True
    show ?thesis
    proof (cases "m < 10")
      case mT: True
      from "1.prems"(3) True mT have "digit_char n = digit_char m"
        by (simp add: int_digits.simps [of n] int_digits.simps [of m])
      then show ?thesis using digit_char_inj "1.prems" True mT by blast
    next
      case False
      from "1.prems"(3) True False show ?thesis
        using int_digits_nonempty [of "m div 10"]
        by (simp add: int_digits.simps [of n] int_digits.simps [of m])
    qed
  next
    case False
    show ?thesis
    proof (cases "m < 10")
      case True
      from "1.prems"(3) True False show ?thesis
        using int_digits_nonempty [of "n div 10"]
        by (simp add: int_digits.simps [of n] int_digits.simps [of m])
    next
      case mF: False
      from "1.prems"(3) False mF
      have e: "int_digits (n div 10) = int_digits (m div 10)"
        and d: "digit_char (n mod 10) = digit_char (m mod 10)"
        by (simp_all add: int_digits.simps [of n] int_digits.simps [of m])
      have "n div 10 = m div 10"
        using "1.IH" [OF False _ _ e] "1.prems"(1,2) by simp
      moreover have "n mod 10 = m mod 10"
        using digit_char_inj [OF _ _ _ _ d] by simp
      ultimately show ?thesis
        by (metis mult_div_mod_eq)
    qed
  qed
qed

lemma Number_toString_inj:
  "0 \<le> n \<Longrightarrow> 0 \<le> m \<Longrightarrow> Number_toString n = Number_toString m \<Longrightarrow> n = m"
  by (simp add: Number_toString_def int_digits_inj)

lemma full_cache_distinct: "distinct (map fst full_cache)"
proof -
  have "inj_on (\<lambda>i. Number_toString (12345678000000 + int i)) (set [0..<1000])"
  proof (rule inj_onI)
    fix x y :: nat
    assume "Number_toString (12345678000000 + int x) = Number_toString (12345678000000 + int y)"
    then have "12345678000000 + int x = 12345678000000 + int y"
      by (rule Number_toString_inj [rotated 2]) simp_all
    then show "x = y" by simp
  qed
  then show ?thesis
    by (simp add: full_cache_def comp_def distinct_map)
qed

lemma full_cache_length: "length full_cache = 1000"
  by (simp add: full_cache_def)

lemma map_of_map_key:
  "i \<in> set xs \<Longrightarrow> map_of (map (\<lambda>i. (f i, g i)) xs) (f i) \<noteq> None"
  by (induction xs) auto

lemma full_cache_has: "i < 1000 \<Longrightarrow> Map_has full_cache (Number_toString (12345678000000 + int i))"
  unfolding Map_has_def full_cache_def by (rule map_of_map_key) simp

lemma full_cache_first: "Map_first_key full_cache = Some (Number_toString 12345678000000)"
proof -
  have "[0..<1000] = 0 # [Suc 0..<1000]"
    by (rule upt_conv_Cons) simp
  then show ?thesis
    by (simp add: full_cache_def Map_first_key_def)
qed

lemma Map_has_delete: "Map_has (Map_delete k m) k' = (k' \<noteq> k \<and> Map_has m k')"
  by (auto simp: Map_has_def Map_delete_def delete_conv')

lemma Map_has_set: "Map_has (Map_set k v m) k' = (k' = k \<or> Map_has m k')"
  by (auto simp: Map_has_def Map_set_def update_conv')

lemma Map_has_keys: "Map_has m k = (k \<in> fst ` set m)"
  by (simp add: Map_has_def map_of_eq_None_iff)

lemma length_Map_delete_distinct:
  "distinct (map fst m) \<Longrightarrow> Map_has m k \<Longrightarrow> Suc (length (Map_delete k m)) = length m"
proof (induction m)
  case Nil
  then show ?case by (simp add: Map_has_def)
next
  case (Cons p m)
  show ?case
  proof (cases "fst p = k")
    case True
    with Cons.prems have "k \<notin> fst ` set m" by auto
    then have "AList.delete k m = m"
      by (rule delete_id)
    with True show ?thesis by (cases p) (simp add: Map_delete_def)
  next
    case False
    with Cons show ?thesis by (auto simp: Map_delete_def Map_has_def AList.delete_eq)
  qed
qed

lemma length_Map_set: "length (Map_set k v m) = (if Map_has m k then length m else Suc (length m))"
  by (induction m) (auto simp: Map_set_def Map_has_def)

lemma distinct_Map_set: "distinct (map fst m) \<Longrightarrow> distinct (map fst (Map_set k v m))"
  by (simp add: Map_set_def distinct_update)

lemma distinct_Map_delete: "distinct (map fst m) \<Longrightarrow> distinct (map fst (Map_delete k m))"
  by (simp add: Map_delete_def distinct_delete)

lemma length_Map_delete_le: "length (Map_delete k m) \<le> length m"
  by (simp add: Map_delete_def length_delete_le)

lemma Map_delete_first_Cons:
  "distinct (map fst ((k, e) # rest)) \<Longrightarrow> Map_delete_first ((k, e) # rest) = rest"
  by (simp add: Map_delete_first_def Map_first_key_def Map_delete_def)

text \<open>
  The sibling \<open>LRUCache.set\<close> (src/unnamed/part\_000) tests \<open>has(key)\<close> first: writing a
  present key evicts nothing, whatever the size, and the size never exceeds \<open>maxSize\<close>.
\<close>

lemma LRUCache_set_present_keeps_keys:
  assumes "Map_has (cache c) key"
  shows "Map_has (cache (LRUCache_set now key v c)) k = Map_has (cache c) k"
  using assms by (auto simp: LRUCache_set_def Map_has_set Map_has_delete)

lemma LRUCache_set_size:
  assumes "distinct (map fst (cache c))" "length (cache c) \<le> maxSize c" "0 < maxSize c"
  shows "length (cache (LRUCache_set now key v c)) \<le> maxSize c \<and>
         distinct (map fst (cache (LRUCache_set now key v c)))"
proof (cases "Map_has (cache c) key")
  case True
  then have "Suc (length (Map_delete key (cache c))) = length (cache c)"
    using assms(1) by (rule length_Map_delete_distinct [rotated])
  with True assms show ?thesis
    by (simp add: LRUCache_set_def length_Map_set Map_has_delete distinct_Map_set distinct_Map_delete)
next
  case False
  show ?thesis
  proof (cases "cache c")
    case Nil
    with False assms show ?thesis
      by (simp add: LRUCache_set_def Map_delete_first_def Map_first_key_def Map_set_def)
  next
    case (Cons p rest)
    obtain k e where p: "p = (k, e)" by (cases p)
    have d: "Map_delete_first ((k, e) # rest) = rest"
      using assms(1) unfolding Cons p by (rule Map_delete_first_Cons)
    have nr: "\<not> Map_has rest key"
      using False unfolding Cons p by (auto simp: Map_has_keys)
    from False assms nr show ?thesis
      unfolding LRUCache_set_def
      by (auto simp: d length_Map_set distinct_Map_set Cons p)
  qed
qed

text \<open>
  Claim C2.  The claim says that writing a key that is already in the cache evicts nothing.
  \<open>CacheManager.set\<close> of src/api/cnpj.js tests the size only: on a cache that holds
  1000 entries, writing the present key 12345678000005 deletes the oldest entry
  12345678000000 and leaves 999 entries.
\<close>

theorem CacheManager_set_evicts_on_overwrite:
  "Map_has full_cache ''12345678000005'' \<and>
   Map_has full_cache ''12345678000000'' \<and>
   distinct (map fst full_cache) \<and>
   CacheManager_getSize full_cache = 1000 \<and>
   \<not> Map_has (CacheManager_set 1700000000000 ''12345678000005'' ''y'' full_cache)
         ''12345678000000'' \<and>
   CacheManager_getSize (CacheManager_set 1700000000000 ''12345678000005'' ''y'' full_cache) = 999"
proof -
  have k5: "Number_toString 12345678000005 = ''12345678000005''" by code_simp
  have k0: "Number_toString 12345678000000 = ''12345678000000''" by code_simp
  have h5: "Map_has full_cache ''12345678000005''"
    using full_cache_has [of 5] by (simp add: k5)
  have h0: "Map_has full_cache ''12345678000000''"
    using full_cache_has [of 0] by (simp add: k0)
  have f: "Map_delete_first full_cache = Map_delete ''12345678000000'' full_cache"
    using full_cache_first k0 by (simp add: Map_delete_first_def)
  have s: "CacheManager_set 1700000000000 ''12345678000005'' ''y'' full_cache =
        Map_set ''12345678000005'' \<lparr>data = ''y'', timestamp = 1700000000000\<rparr>
          (Map_delete ''12345678000000'' full_cache)"
    by (simp add: CacheManager_set_def api_MAX_CACHE_SIZE_def full_cache_length f)
  have l: "length (Map_delete ''12345678000000'' full_cache) = 999"
    using length_Map_delete_distinct [OF full_cache_distinct h0] by (simp add: full_cache_length)
  show ?thesis
    using h5 h0 l full_cache_distinct by (simp add: s Map_has_set Map_has_delete length_Map_set CacheManager_getSize_def full_cache_length)
qed


text \<open>
  Claim C4.  The claim says that the check after \<open>threshold\<close> admissions in one window is
  denied.  \<open>checkRateLimit\<close> of src/unnamed/part\_000 compares the client address with
  the decimal digits of each stored time (\<open>timestamp.toString().startsWith(ip)\<close>), so it
  counts nothing: from the empty table, eleven checks of the address 203.0.113.7 within ten
  seconds are all admitted, for a threshold of ten.
\<close>

theorem opt_checkRateLimit_never_counts:
  "fst (opt_checks
     [(1700000000000, ''203.0.113.7''), (1700000001000, ''203.0.113.7''),
      (1700000002000, ''203.0.113.7''), (1700000003000, ''203.0.113.7''),
      (1700000004000, ''203.0.113.7''), (1700000005000, ''203.0.113.7''),
      (1700000006000, ''203.0.113.7''), (1700000007000, ''203.0.113.7''),
      (1700000008000, ''203.0.113.7''), (1700000009000, ''203.0.113.7''),
      (1700000010000, ''203.0.113.7'')] []) =
   [True, True, True, True, True, True, True, True, True, True, True]"
  by code_simp

text \<open>
  The sibling \<open>checkRateLimit\<close> of src/api/cnpj.js matches the keys: for one identifier
  the fourth check in the window is denied and records nothing, and a check after the
  window has passed is admitted again.
\<close>

lemma api_checkRateLimit_example:
  "fst (api_checks
     [(1700000000000, ''203.0.113.7'', ''12345678000195''),
      (1700000001000, ''203.0.113.7'', ''12345678000195''),
      (1700000002000, ''203.0.113.7'', ''12345678000195''),
      (1700000003000, ''203.0.113.7'', ''12345678000195''),
      (1700000062001, ''203.0.113.7'', ''12345678000195'')] []) =
   [True, True, True, False, True]"
  by code_simp

lemma api_checkRateLimit_denied_unchanged:
  "api_checkRateLimit 1700000003000 ''203.0.113.7'' ''12345678000195''
     (snd (api_checks
       [(1700000000000, ''203.0.113.7'', ''12345678000195''),
        (1700000001000, ''203.0.113.7'', ''12345678000195''),
        (1700000002000, ''203.0.113.7'', ''12345678000195'')] [])) =
   (False,
    snd (api_checks
       [(1700000000000, ''203.0.113.7'', ''12345678000195''),
        (1700000001000, ''203.0.113.7'', ''12345678000195''),
        (1700000002000, ''203.0.113.7'', ''12345678000195'')] []))"
  by code_simp

section \<open>Verified properties: the handlers\<close>
























text \<open>
  Claim C7.  In src/api/cnpj.js a request whose method is neither GET nor OPTIONS is
  answered 405 with an error body, the tables untouched and nothing fetched; OPTIONS is
  answered 200 without a body; a GET without the \<open>cnpj\<close> parameter is answered 400 with
  the message \<open>CNPJ n\<atilde>o informado\<close>, the tables untouched and nothing fetched.
\<close>

theorem api_handler_gating:
  "(req_method req \<noteq> ''GET'' \<and> req_method req \<noteq> ''OPTIONS'' \<longrightarrow>
      api_handler ev req st =
        (\<lparr>res_status = 405, res_headers = api_headers, res_body = Error_body msg_metodo None\<rparr>,
         st, [])) \<and>
   (req_method req = ''OPTIONS'' \<longrightarrow>
      api_handler ev req st =
        (\<lparr>res_status = 200, res_headers = api_headers, res_body = No_body\<rparr>, st, [])) \<and>
   (req_method req = ''GET'' \<and> req_query_cnpj req = Q_absent \<longrightarrow>
      api_handler ev req st =
        (\<lparr>res_status = 400, res_headers = api_headers,
          res_body = Error_body msg_nao_informado None\<rparr>, st, []))"
  by (simp add: api_handler_def query_falsy_def Let_def)

theorem api_handler_gating_witness:
  "api_handler (example_env (Fetch_rejects (JsError ''TypeError'' ''fetch failed'')))
      (example_request ''POST'' (Q_string ''12345678000195'')) api_initial =
     (\<lparr>res_status = 405, res_headers = api_headers, res_body = Error_body msg_metodo None\<rparr>,
      api_initial, []) \<and>
   api_handler (example_env (Fetch_rejects (JsError ''TypeError'' ''fetch failed'')))
      (example_request ''OPTIONS'' Q_absent) api_initial =
     (\<lparr>res_status = 200, res_headers = api_headers, res_body = No_body\<rparr>, api_initial, []) \<and>
   api_handler (example_env (Fetch_rejects (JsError ''TypeError'' ''fetch failed'')))
      (example_request ''GET'' Q_absent) api_initial =
     (\<lparr>res_status = 400, res_headers = api_headers,
       res_body = Error_body msg_nao_informado None\<rparr>, api_initial, [])"
  using api_handler_gating [of "example_request ''POST'' (Q_string ''12345678000195'')"
          "example_env (Fetch_rejects (JsError ''TypeError'' ''fetch failed''))" api_initial]
        api_handler_gating [of "example_request ''OPTIONS'' Q_absent"
          "example_env (Fetch_rejects (JsError ''TypeError'' ''fetch failed''))" api_initial]
        api_handler_gating [of "example_request ''GET'' Q_absent"
          "example_env (Fetch_rejects (JsError ''TypeError'' ''fetch failed''))" api_initial]
  by (simp add: example_request_def)








section \<open>Verified properties: the data mapper\<close>























lemma field_JObj:
  "field (JObj kvs) f = (case map_of kvs f of None \<Rightarrow> JUndefined | Some v \<Rightarrow> v)"
  by (simp add: field_def)














lemma mapped_empty_taxId:
  "\<not> truthy (field api_mapped_empty ''taxId'')" "\<not> truthy (field opt_mapped_empty ''taxId'')"
  by (simp_all add: api_mapped_empty_def opt_mapped_empty_def field_JObj)




section \<open>Verified properties: the classification of failures\<close>

lemma n404: "Number_toString 404 = ''404''"
  by code_simp

lemma n429: "Number_toString 429 = ''429''"
  by code_simp

lemma api_timeout_msg:
  "js_includes ''Timeout na consulta da API externa'' ''Timeout''"
  by (simp add: js_includes_def sublist_code)

lemma api_dados_msg:
  "\<not> js_includes msg_dados_invalidos_api ''Timeout''"
  "\<not> js_includes msg_dados_invalidos_api ''404''"
  "\<not> js_includes msg_dados_invalidos_api str_nao_encontrado"
  "\<not> js_includes msg_dados_invalidos_api ''429''"
  "\<not> js_includes msg_dados_invalidos_api ''Failed to fetch''"
  "\<not> js_includes msg_dados_invalidos_api ''Network''"
  by (simp_all add: js_includes_def sublist_code msg_dados_invalidos_api_def str_nao_encontrado_def)

lemma opt_msgs:
  "js_includes ''Timeout na consulta'' ''Timeout''"
  "\<not> js_includes ''API externa: 404'' ''Timeout''"
  "js_includes ''API externa: 404'' ''404''"
  "\<not> js_includes ''API externa: 429'' ''Timeout''"
  "\<not> js_includes ''API externa: 429'' ''404''"
  "js_includes ''API externa: 429'' ''429''"
  "\<not> js_includes msg_dados_invalidos_opt ''Timeout''"
  "\<not> js_includes msg_dados_invalidos_opt ''404''"
  "\<not> js_includes msg_dados_invalidos_opt ''429''"
  by (simp_all add: js_includes_def sublist_code msg_dados_invalidos_opt_def)

lemma api_lookup_timeout:
  assumes "env_fetch ev (registry_url c) = Fetch_rejects e" "err_name e = ''AbortError''"
  shows "fst (api_lookup ev c st) =
     \<lparr>res_status = 408, res_headers = api_headers,
      res_body = Error_body ''Timeout na consulta externa''
        (if env_development ev then Some ''Timeout na consulta da API externa'' else None)\<rparr>"
  using assms api_timeout_msg
  by (simp add: api_lookup_def api_fetchCNPJData_def api_rethrow_def api_error_response_def Let_def)

lemma api_lookup_taxId:
  assumes "api_fetchCNPJData ev c = Inr d"
    "api_mapToFrontendStructure (env_parseFloat ev) d = Inr m" "\<not> truthy (field m ''taxId'')"
  shows "res_status (fst (api_lookup ev c st)) = 500 \<and>
         (\<exists>d. res_body (fst (api_lookup ev c st)) = Error_body msg_erro_interno d)"
  using assms api_dados_msg
  by (simp add: api_lookup_def api_error_response_def Let_def)

lemma api_lookup_shape:
  "(case res_body (fst (api_lookup ev c st)) of
      No_body \<Rightarrow> False
    | Data_body d cached \<Rightarrow> \<not> cached \<and> res_status (fst (api_lookup ev c st)) = 200
    | Error_body m det \<Rightarrow>
        (res_status (fst (api_lookup ev c st)), m) \<in>
          {(408, ''Timeout na consulta externa''), (404, msg_nao_encontrada),
           (429, msg_limite_externo), (503, msg_indisponivel), (500, msg_erro_interno)} \<and>
        (\<not> env_development ev \<longrightarrow> det = None))"
  by (auto simp: api_lookup_def api_error_response_def Let_def split: sum.splits)

lemma opt_lookup_timeout:
  assumes "env_fetch ev (registry_url c) = Fetch_rejects e" "err_name e = ''AbortError''"
  shows "fst (opt_lookup ev c st) =
     \<lparr>res_status = 408, res_headers = opt_headers,
      res_body = Error_body ''Timeout na consulta'' None\<rparr>"
  using assms opt_msgs
  by (simp add: opt_lookup_def opt_fetchCNPJData_def opt_rethrow_def opt_error_response_def
      opt_catch_def Let_def)

lemma opt_lookup_404:
  assumes "env_fetch ev (registry_url c) = Fetch_response 404 tr j"
  shows "fst (opt_lookup ev c st) =
     \<lparr>res_status = 404, res_headers = opt_headers, res_body = Error_body msg_nao_encontrada None\<rparr>"
  using assms opt_msgs
  by (simp add: opt_lookup_def opt_fetchCNPJData_def opt_rethrow_def opt_error_response_def
      opt_catch_def is_ok_def n404 Let_def)

lemma opt_lookup_429:
  assumes "env_fetch ev (registry_url c) = Fetch_response 429 tr j"
  shows "fst (opt_lookup ev c st) =
     \<lparr>res_status = 429, res_headers = opt_headers, res_body = Error_body msg_limite_externo None\<rparr>"
  using assms opt_msgs
  by (simp add: opt_lookup_def opt_fetchCNPJData_def opt_rethrow_def opt_error_response_def
      opt_catch_def is_ok_def n429 Let_def)

lemma opt_lookup_taxId:
  assumes "opt_fetchCNPJData ev c = Inr d"
    "opt_mapToFrontendStructure (env_parseFloat ev) d = Inr m" "\<not> truthy (field m ''taxId'')"
  shows "fst (opt_lookup ev c st) =
     \<lparr>res_status = 500, res_headers = opt_headers, res_body = Error_body msg_erro_interno None\<rparr>"
  using assms opt_msgs
  by (simp add: opt_lookup_def opt_error_response_def opt_catch_def Let_def)

lemma opt_lookup_shape:
  "(case res_body (fst (opt_lookup ev c st)) of
      No_body \<Rightarrow> False
    | Data_body d cached \<Rightarrow> \<not> cached \<and> res_status (fst (opt_lookup ev c st)) = 200
    | Error_body m det \<Rightarrow>
        (res_status (fst (opt_lookup ev c st)), m) \<in>
          {(408, ''Timeout na consulta''), (404, msg_nao_encontrada),
           (429, msg_limite_externo), (500, msg_erro_interno)} \<and> det = None)"
  by (auto simp: opt_lookup_def opt_error_response_def opt_catch_def Let_def split: sum.splits)

text \<open>
  Claim C5.  The claim says: 404 when the registry reported 404, 503 on a transport
  failure, 500 for any other failure.  The handler of src/api/cnpj.js searches the message
  of the error, which carries the text of the registry's answer, for its markers: a
  registry status 404 with the text \<open>Gateway Timeout\<close> is answered 408 (the handler of
  src/unnamed/part\_000, whose message carries the status only, answers 404), and a
  registry status 500 with the text \<open>upstream said 404\<close> is answered 404.  A rejected
  \<open>fetch\<close> with the message \<open>fetch failed\<close> of Node.js is answered 500, where the
  message \<open>Failed to fetch\<close> of a browser is answered 503; the handler of
  src/unnamed/part\_000 has no 503 and answers 500.
\<close>

theorem error_classification_misclassifies:
  "res_status (fst (api_handler
      (example_env (Fetch_response 404 (Inr ''Gateway Timeout'') (Inr JNull)))
      (example_request ''GET'' (Q_string ''12.345.678/0001-95'')) api_initial)) = 408 \<and>
   res_status (fst (opt_handler
      (example_env (Fetch_response 404 (Inr ''Gateway Timeout'') (Inr JNull)))
      (example_request ''GET'' (Q_string ''12.345.678/0001-95'')) opt_initial)) = 404 \<and>
   res_status (fst (api_handler
      (example_env (Fetch_response 500 (Inr ''upstream said 404'') (Inr JNull)))
      (example_request ''GET'' (Q_string ''12.345.678/0001-95'')) api_initial)) = 404 \<and>
   res_status (fst (api_handler
      (example_env (Fetch_rejects (JsError ''TypeError'' ''fetch failed'')))
      (example_request ''GET'' (Q_string ''12.345.678/0001-95'')) api_initial)) = 500 \<and>
   res_status (fst (api_handler
      (example_env (Fetch_rejects (JsError ''TypeError'' ''Failed to fetch'')))
      (example_request ''GET'' (Q_string ''12.345.678/0001-95'')) api_initial)) = 503 \<and>
   res_status (fst (opt_handler
      (example_env (Fetch_rejects (JsError ''TypeError'' ''Failed to fetch'')))
      (example_request ''GET'' (Q_string ''12.345.678/0001-95'')) opt_initial)) = 500"
proof -
  have "res_status (fst (api_handler
      (example_env (Fetch_response 404 (Inr ''Gateway Timeout'') (Inr JNull)))
      (example_request ''GET'' (Q_string ''12.345.678/0001-95'')) api_initial)) = 408"
    by code_simp
  moreover have "res_status (fst (opt_handler
      (example_env (Fetch_response 404 (Inr ''Gateway Timeout'') (Inr JNull)))
      (example_request ''GET'' (Q_string ''12.345.678/0001-95'')) opt_initial)) = 404"
    by code_simp
  moreover have "res_status (fst (api_handler
      (example_env (Fetch_response 500 (Inr ''upstream said 404'') (Inr JNull)))
      (example_request ''GET'' (Q_string ''12.345.678/0001-95'')) api_initial)) = 404"
    by code_simp
  moreover have "res_status (fst (api_handler
      (example_env (Fetch_rejects (JsError ''TypeError'' ''fetch failed'')))
      (example_request ''GET'' (Q_string ''12.345.678/0001-95'')) api_initial)) = 500"
    by code_simp
  moreover have "res_status (fst (api_handler
      (example_env (Fetch_rejects (JsError ''TypeError'' ''Failed to fetch'')))
      (example_request ''GET'' (Q_string ''12.345.678/0001-95'')) api_initial)) = 503"
    by code_simp
  moreover have "res_status (fst (opt_handler
      (example_env (Fetch_rejects (JsError ''TypeError'' ''Failed to fetch'')))
      (example_request ''GET'' (Q_string ''12.345.678/0001-95'')) opt_initial)) = 500"
    by code_simp
  ultimately show ?thesis by blast
qed

end
